theory Spec2Isabelle
  imports Main
begin

section \<open>Python strings\<close>

text \<open>
  A Python \<open>str\<close> is modelled as a \<open>string\<close> whose characters are read as code points
  below 256. \<open>isspace\<close> lists the code points below 256 for which \<open>str.isspace\<close> holds;
  \<open>str.strip()\<close> removes them from both ends.
\<close>

definition isspace :: "char \<Rightarrow> bool" where
  "isspace c = (of_char c \<in> {9, 10, 11, 12, 13, 28, 29, 30, 31, 32, 133, 160 :: nat})"

definition strip :: "string \<Rightarrow> string" where
  "strip s = rev (dropWhile isspace (rev (dropWhile isspace s)))"

text \<open>
  \<open>s.split(sep)\<close> for a one-character separator: the pieces between the separators, in
  order, empty pieces kept; the empty string gives one empty piece. \<open>cur\<close> holds the
  piece being read, reversed.
\<close>

fun split_acc :: "char \<Rightarrow> string \<Rightarrow> string \<Rightarrow> string list" where
  "split_acc sep cur [] = [rev cur]"
| "split_acc sep cur (c # cs) =
     (if c = sep then rev cur # split_acc sep [] cs else split_acc sep (c # cur) cs)"

definition split_on :: "char \<Rightarrow> string \<Rightarrow> string list" where
  "split_on sep s = split_acc sep [] s"

text \<open>\<open>sep.join(pieces)\<close>, used to state what \<open>split_on\<close> computes.\<close>

fun join :: "char \<Rightarrow> string list \<Rightarrow> string" where
  "join sep [] = []"
| "join sep [p] = p"
| "join sep (p # q # ps) = p @ sep # join sep (q # ps)"

section \<open>transformers.py: friends\<close>

text \<open>
  \<open>transform_friends(friends_str)\<close>. The argument is a \<open>str\<close> or \<open>None\<close>. The body of the
  \<open>try\<close> only calls \<open>split\<close> and \<open>strip\<close> on strings, which raise nothing, so the
  \<open>except\<close> branch is never entered and the function returns a list.
\<close>

definition transform_friends :: "string option \<Rightarrow> string list" where
  "transform_friends friends_str =
     (case friends_str of
        None \<Rightarrow> []
      | Some s \<Rightarrow>
          if s = [] \<or> strip s = [] then []
          else (let friends_list = map strip (split_on (CHR '','') s)
                in filter (\<lambda>friend. friend \<noteq> []) friends_list))"

section \<open>datetime\<close>

text \<open>
  A \<open>datetime.datetime\<close> value: the calendar fields, and \<open>tzinfo\<close> given by its UTC offset
  in microseconds (\<open>None\<close> for a naive value). The fields are in the ranges the class
  enforces (year 1..9999, month 1..12, ...).
\<close>

record datetime =
  year :: int
  month :: int
  day :: int
  hour :: int
  minute :: int
  second :: int
  microsecond :: int
  tzinfo :: "int option"

definition digit_char :: "int \<Rightarrow> char" where
  "digit_char d = ''0123456789'' ! nat (d mod 10)"

text \<open>\<open>"%02d" % n\<close>, \<open>"%04d" % n\<close> and \<open>"%06d" % n\<close> for fields within their ranges.\<close>

definition fmt02 :: "int \<Rightarrow> string" where
  "fmt02 n = [digit_char (n div 10), digit_char n]"

definition fmt04 :: "int \<Rightarrow> string" where
  "fmt04 n = [digit_char (n div 1000), digit_char (n div 100), digit_char (n div 10),
              digit_char n]"

definition fmt06 :: "int \<Rightarrow> string" where
  "fmt06 n = [digit_char (n div 100000), digit_char (n div 10000), digit_char (n div 1000),
              digit_char (n div 100), digit_char (n div 10), digit_char n]"

text \<open>\<open>_format_offset(off)\<close> of the standard library: \<open>+HH:MM\<close>, seconds and microseconds
  only when they are not zero.\<close>

definition format_offset :: "int \<Rightarrow> string" where
  "format_offset off =
     (let sign = (if off < 0 then CHR ''-'' else CHR ''+'');
          a = \<bar>off\<bar>;
          hh = a div 3600000000;
          mm = (a mod 3600000000) div 60000000;
          ss = (a mod 3600000000) mod 60000000;
          s = sign # fmt02 hh @ '':'' @ fmt02 mm
      in if ss \<noteq> 0
         then s @ '':'' @ fmt02 (ss div 1000000)
                @ (if ss mod 1000000 \<noteq> 0 then ''.'' @ fmt06 (ss mod 1000000) else [])
         else s)"

text \<open>\<open>dt.isoformat()\<close>.\<close>

definition isoformat :: "datetime \<Rightarrow> string" where
  "isoformat dt =
     fmt04 (year dt) @ ''-'' @ fmt02 (month dt) @ ''-'' @ fmt02 (day dt) @ ''T''
     @ fmt02 (hour dt) @ '':'' @ fmt02 (minute dt) @ '':'' @ fmt02 (second dt)
     @ (if microsecond dt \<noteq> 0 then ''.'' @ fmt06 (microsecond dt) else [])
     @ (case tzinfo dt of None \<Rightarrow> [] | Some off \<Rightarrow> format_offset off)"

text \<open>The proleptic Gregorian calendar of the standard library.\<close>

definition is_leap :: "int \<Rightarrow> bool" where
  "is_leap y = (y mod 4 = 0 \<and> (y mod 100 \<noteq> 0 \<or> y mod 400 = 0))"

definition days_before_year :: "int \<Rightarrow> int" where
  "days_before_year y = (y - 1) * 365 + (y - 1) div 4 - (y - 1) div 100 + (y - 1) div 400"

definition DAYS_IN_MONTH :: "int list" where
  "DAYS_IN_MONTH = [-1, 31, 28, 31, 30, 31, 30, 31, 31, 30, 31, 30, 31]"

definition DAYS_BEFORE_MONTH :: "int list" where
  "DAYS_BEFORE_MONTH = [-1, 0, 31, 59, 90, 120, 151, 181, 212, 243, 273, 304, 334]"

definition days_before_month :: "int \<Rightarrow> int \<Rightarrow> int" where
  "days_before_month y m =
     DAYS_BEFORE_MONTH ! nat m + (if m > 2 \<and> is_leap y then 1 else 0)"

definition ymd2ord :: "int \<Rightarrow> int \<Rightarrow> int \<Rightarrow> int" where
  "ymd2ord y m d = days_before_year y + days_before_month y m + d"

definition ord2ymd :: "int \<Rightarrow> int \<times> int \<times> int" where
  "ord2ymd ordinal =
     (let n0 = ordinal - 1;
          n400 = n0 div 146097; n1' = n0 mod 146097;
          n100 = n1' div 36524; n2' = n1' mod 36524;
          n4 = n2' div 1461; n3' = n2' mod 1461;
          n1 = n3' div 365; n = n3' mod 365;
          y = n400 * 400 + 1 + n100 * 100 + n4 * 4 + n1
      in if n1 = 4 \<or> n100 = 4 then (y - 1, 12, 31)
         else
           (let leapyear = (n1 = 3 \<and> (n4 \<noteq> 24 \<or> n100 = 3));
                m = (n + 50) div 32;
                preceding = DAYS_BEFORE_MONTH ! nat m + (if m > 2 \<and> leapyear then 1 else 0)
            in if preceding > n
               then (let m' = m - 1;
                         preceding' = preceding
                           - (DAYS_IN_MONTH ! nat m' + (if m' = 2 \<and> leapyear then 1 else 0))
                     in (y, m', n - preceding' + 1))
               else (y, m, n - preceding + 1)))"

datatype exn =
    APIError "int option"
  | HTTPError int
  | ValueError
  | TransformationError "int option" "string option"
  | OverflowError
  | OtherError

text \<open>
  \<open>dt.replace(tzinfo=tz.UTC)\<close> and \<open>dt.astimezone(tz.UTC)\<close> for an aware \<open>dt\<close> with
  offset \<open>off\<close>: the offset is subtracted from the wall time; a result outside the years
  1..9999 raises \<open>OverflowError\<close>.
\<close>

definition replace_tzinfo_utc :: "datetime \<Rightarrow> datetime" where
  "replace_tzinfo_utc dt = dt\<lparr>tzinfo := Some 0\<rparr>"

definition to_microseconds :: "datetime \<Rightarrow> int" where
  "to_microseconds dt =
     (((ymd2ord (year dt) (month dt) (day dt) * 24 + hour dt) * 60 + minute dt) * 60
        + second dt) * 1000000 + microsecond dt"

definition astimezone_utc :: "datetime \<Rightarrow> int \<Rightarrow> exn + datetime" where
  "astimezone_utc dt off =
     (let n = to_microseconds dt - off;
          days = n div 86400000000;
          r = n mod 86400000000
      in if days < 1 \<or> days > 3652059 then Inl OverflowError
         else (case ord2ymd days of (y, m, d) \<Rightarrow>
                 Inr \<lparr>year = y, month = m, day = d,
                      hour = r div 3600000000,
                      minute = (r mod 3600000000) div 60000000,
                      second = (r mod 60000000) div 1000000,
                      microsecond = r mod 1000000,
                      tzinfo = Some 0\<rparr>))"

section \<open>models.py\<close>

text \<open>
  \<open>friends\<close> is a \<open>str\<close> or a list of \<open>str\<close>; \<open>born_at\<close> is \<open>None\<close>, a \<open>str\<close> or a
  \<open>datetime\<close>. The other keys of a record (\<open>extra = "allow"\<close>) are kept as pairs of key
  and value.
\<close>

datatype friends_val = FriendsStr string | FriendsList "string list"

datatype born_at_val = BornNone | BornStr string | BornDatetime datetime

record AnimalSummary =
  id_s :: int
  name_s :: string

record AnimalDetail =
  id_d :: int
  name_d :: string
  friends_d :: friends_val
  born_at_d :: born_at_val
  extra_d :: "(string \<times> string) list"

record TransformedAnimal =
  id_t :: int
  name_t :: string
  friends_t :: "string list"
  born_at_t :: "string option"
  extra_t :: "(string \<times> string) list"

text \<open>
  The value handed to the \<open>friends\<close> validator: \<open>None\<close>, a string, or a list whose items
  are strings, for which \<open>str(item)\<close> is the item and \<open>if item\<close> holds when it is not
  empty.
\<close>

datatype friends_raw = RawNone | RawStr string | RawList "string list"

definition validate_friends :: "friends_raw \<Rightarrow> friends_val" where
  "validate_friends v =
     (case v of
        RawStr s \<Rightarrow> FriendsStr s
      | RawList items \<Rightarrow> FriendsList (filter (\<lambda>item. item \<noteq> []) items)
      | RawNone \<Rightarrow> FriendsStr [])"

definition validate_born_at :: "born_at_val \<Rightarrow> born_at_val" where
  "validate_born_at v =
     (case v of
        BornNone \<Rightarrow> BornNone
      | BornStr s \<Rightarrow> (if s = [] then BornNone else BornStr s)
      | BornDatetime d \<Rightarrow> BornDatetime d)"

text \<open>\<open>AnimalDetail(id=..., name=..., friends=..., born_at=..., **extra)\<close>.\<close>

definition AnimalDetail_init ::
  "int \<Rightarrow> string \<Rightarrow> friends_raw \<Rightarrow> born_at_val \<Rightarrow> (string \<times> string) list \<Rightarrow> AnimalDetail" where
  "AnimalDetail_init i n f b e =
     \<lparr>id_d = i, name_d = n, friends_d = validate_friends f,
      born_at_d = validate_born_at b, extra_d = e\<rparr>"

section \<open>transformers.py: born_at and records\<close>

text \<open>
  \<open>transform_born_at(born_at_val)\<close>. \<open>parse\<close> stands for \<open>dateutil.parser.parse\<close>: it
  returns a \<open>datetime\<close> or raises; \<open>ParserError\<close> is a \<open>ValueError\<close>.
\<close>

definition to_utc_iso :: "datetime \<Rightarrow> exn + string option" where
  "to_utc_iso d =
     (case tzinfo d of
        None \<Rightarrow> Inr (Some (isoformat (replace_tzinfo_utc d)))
      | Some off \<Rightarrow>
          (case astimezone_utc d off of
             Inl e \<Rightarrow> Inl e
           | Inr u \<Rightarrow> Inr (Some (isoformat u))))"

definition transform_born_at ::
  "(string \<Rightarrow> exn + datetime) \<Rightarrow> born_at_val \<Rightarrow> exn + string option" where
  "transform_born_at parse born_at_val =
     (case born_at_val of
        BornNone \<Rightarrow> Inr None
      | BornDatetime d \<Rightarrow> to_utc_iso d
      | BornStr s \<Rightarrow>
          if strip s = [] then Inr None
          else (case parse s of
                  Inl ValueError \<Rightarrow> Inl (TransformationError None (Some ''born_at''))
                | Inl e \<Rightarrow> Inl e
                | Inr parsed_date \<Rightarrow>
                    (case to_utc_iso parsed_date of
                       Inl ValueError \<Rightarrow> Inl (TransformationError None (Some ''born_at''))
                     | Inl e \<Rightarrow> Inl e
                     | Inr r \<Rightarrow> Inr r)))"

text \<open>
  \<open>transform_animal(animal)\<close>. \<open>animal.dict()\<close> holds the four declared fields and the
  extra keys; the comprehension keeps the keys other than the four.
\<close>

definition transform_animal ::
  "(string \<Rightarrow> exn + datetime) \<Rightarrow> AnimalDetail \<Rightarrow> exn + TransformedAnimal" where
  "transform_animal parse animal =
     (let transformed_friends =
            (case friends_d animal of
               FriendsList l \<Rightarrow> l
             | FriendsStr s \<Rightarrow> transform_friends (Some s));
          transformed_born_at =
            (case born_at_d animal of
               BornDatetime d \<Rightarrow> Inr (Some (isoformat d))
             | b \<Rightarrow> transform_born_at parse b)
      in case transformed_born_at of
           Inr b \<Rightarrow>
             Inr \<lparr>id_t = id_d animal, name_t = name_d animal,
                  friends_t = transformed_friends, born_at_t = b,
                  extra_t = filter (\<lambda>(k, v). k \<notin> set [''id'', ''name'', ''friends'', ''born_at''])
                              (extra_d animal)\<rparr>
         | Inl (TransformationError a f) \<Rightarrow> Inl (TransformationError a f)
         | Inl e \<Rightarrow> Inl (TransformationError (Some (id_d animal)) None))"

text \<open>
  \<open>transform_animals_batch(animals)\<close>: the loop with its two accumulators; an entry of
  \<open>errors\<close> is recorded by the id its message names.
\<close>

fun batch_loop ::
  "(string \<Rightarrow> exn + datetime) \<Rightarrow> AnimalDetail list \<Rightarrow> TransformedAnimal list \<Rightarrow> int list
   \<Rightarrow> TransformedAnimal list \<times> int list" where
  "batch_loop parse [] transformed_animals errors = (transformed_animals, errors)"
| "batch_loop parse (animal # animals) transformed_animals errors =
     (case transform_animal parse animal of
        Inr transformed \<Rightarrow>
          batch_loop parse animals (transformed_animals @ [transformed]) errors
      | Inl (TransformationError a f) \<Rightarrow>
          batch_loop parse animals transformed_animals (errors @ [id_d animal])
      | Inl e \<Rightarrow>
          batch_loop parse animals transformed_animals (errors @ [id_d animal]))"

definition transform_animals_batch ::
  "(string \<Rightarrow> exn + datetime) \<Rightarrow> AnimalDetail list \<Rightarrow> TransformedAnimal list" where
  "transform_animals_batch parse animals = fst (batch_loop parse animals [] [])"

text \<open>\<open>isinstance(animal.friends, list)\<close>.\<close>

fun is_list :: "friends_val \<Rightarrow> bool" where
  "is_list (FriendsList l) = True"
| "is_list (FriendsStr s) = False"

text \<open>A parser that rejects every string, for the examples below.\<close>

definition parse_rejecting :: "string \<Rightarrow> exn + datetime" where
  "parse_rejecting s = Inl ValueError"

text \<open>An example parser and five detail records, the third with an unparseable \<open>born_at\<close>.\<close>

definition parse_iso_day :: "string \<Rightarrow> exn + datetime" where
  "parse_iso_day s =
     (if s = ''2020-01-01''
      then Inr \<lparr>year = 2020, month = 1, day = 1, hour = 0, minute = 0, second = 0,
                microsecond = 0, tzinfo = None\<rparr>
      else Inl ValueError)"

definition example_detail :: "int \<Rightarrow> string \<Rightarrow> AnimalDetail" where
  "example_detail i b = AnimalDetail_init i ''cat'' (RawStr ''a,b'') (BornStr b) []"

definition example_details :: "AnimalDetail list" where
  "example_details =
     [example_detail 1 ''2020-01-01'', example_detail 2 [],
      example_detail 3 ''not-a-date'', example_detail 4 ''2020-01-01'',
      example_detail 5 ''2020-01-01'']"

section \<open>config.py\<close>

text \<open>The settings read from the environment, and the fixed list of retried statuses.\<close>

record config =
  BATCH_SIZE :: int
  MAX_RETRIES :: int
  DEFAULT_PAGE_SIZE :: int
  START_PAGE :: int

definition default_config :: config where
  "default_config = \<lparr>BATCH_SIZE = 100, MAX_RETRIES = 3, DEFAULT_PAGE_SIZE = 20, START_PAGE = 1\<rparr>"

definition RETRY_STATUS_CODES :: "int list" where
  "RETRY_STATUS_CODES = [500, 502, 503, 504]"

section \<open>api_client.py\<close>

text \<open>
  The three requests the client sends: the list page (\<open>page\<close>, \<open>per_page\<close>), the detail
  of an id, and the POST of a batch to the home endpoint.
\<close>

datatype request =
    GetList int int
  | GetDetail int
  | PostHome "TransformedAnimal list"

text \<open>
  What \<open>response.json()\<close> followed by the model constructor yields: the fields of a list
  page, the fields of a detail record, a \<open>ValueError\<close>/\<open>KeyError\<close> (\<open>InvalidBody\<close>: text
  that is not JSON, or an object the model rejects), or an exception of another class
  (\<open>UnexpectedBody\<close>: a JSON value that is not an object, such as a list, for which
  \<open>Model(**data)\<close> raises \<open>TypeError\<close>).
\<close>

datatype json_body =
    ListBody int int "AnimalSummary list"
  | DetailBody int string friends_raw born_at_val "(string \<times> string) list"
  | InvalidBody
  | UnexpectedBody

record response =
  status_code :: int
  body :: json_body

text \<open>What \<open>session.request\<close> does: it raises one of the \<open>requests\<close> exceptions or
  returns a response.\<close>

datatype outcome = Timeout | ConnectionError | RequestException | Response response

text \<open>
  The lines written to the log that the statements below refer to; the other lines are
  left out.
\<close>

datatype event =
    RetryableStatus int
  | TimeoutWarning
  | ConnectionWarning
  | NonRetryable int
  | RequestWarning
  | SubmittingBatch int
  | SubmittedBatch int
  | SubmitFailed int
  | ProcessingBatch int int
  | BatchOk int
  | BatchError int

text \<open>
  The state outside the program: the requests issued so far, in order, and the log. The
  network is a function from the requests issued so far and the request being sent to
  what \<open>session.request\<close> does.
\<close>

record world =
  sent :: "request list"
  log :: "event list"

type_synonym env = "request list \<Rightarrow> request \<Rightarrow> outcome"

definition logger :: "event \<Rightarrow> world \<Rightarrow> world" where
  "logger e w = w\<lparr>log := log w @ [e]\<rparr>"

definition session_request :: "env \<Rightarrow> request \<Rightarrow> world \<Rightarrow> outcome \<times> world" where
  "session_request env r w = (env (sent w) r, w\<lparr>sent := sent w @ [r]\<rparr>)"

text \<open>
  The body of \<open>_make_request\<close>, one attempt. The \<open>APIError\<close> raised for a status of
  \<open>RETRY_STATUS_CODES\<close> is raised inside the \<open>try\<close> and matches none of its \<open>except\<close>
  clauses; \<open>raise_for_status\<close> raises \<open>HTTPError\<close> for a status from 400 to 599.
\<close>

definition attempt :: "env \<Rightarrow> request \<Rightarrow> world \<Rightarrow> (exn + response) \<times> world" where
  "attempt env r w =
     (case session_request env r w of
        (Timeout, w1) \<Rightarrow> (Inl (APIError None), logger TimeoutWarning w1)
      | (ConnectionError, w1) \<Rightarrow> (Inl (APIError None), logger ConnectionWarning w1)
      | (RequestException, w1) \<Rightarrow> (Inl (APIError None), logger RequestWarning w1)
      | (Response resp, w1) \<Rightarrow>
          if status_code resp \<in> set RETRY_STATUS_CODES
          then (Inl (APIError (Some (status_code resp))),
                logger (RetryableStatus (status_code resp)) w1)
          else if 400 \<le> status_code resp \<and> status_code resp < 600
          then (if status_code resp \<notin> set RETRY_STATUS_CODES
                then (Inl (APIError (Some (status_code resp))),
                      logger (NonRetryable (status_code resp)) w1)
                else (Inl (HTTPError (status_code resp)), w1))
          else (Inr resp, w1))"

text \<open>\<open>retry_if_exception_type((requests.RequestException, APIError))\<close>.\<close>

fun retry_if_exception :: "exn \<Rightarrow> bool" where
  "retry_if_exception (APIError s) = True"
| "retry_if_exception (HTTPError s) = True"
| "retry_if_exception e = False"

text \<open>
  The \<open>@retry\<close> decorator with \<open>stop_after_attempt(config.MAX_RETRIES)\<close> and
  \<open>reraise=True\<close>: attempts are numbered from 1; after a failed attempt whose exception
  is retried, the call stops when the attempt number has reached the maximum and goes on
  otherwise. The waits between attempts are not part of the state.
\<close>

function make_request_from ::
  "config \<Rightarrow> env \<Rightarrow> request \<Rightarrow> int \<Rightarrow> world \<Rightarrow> (exn + response) \<times> world" where
  "make_request_from cfg env r attempt_number w =
     (case attempt env r w of
        (Inr resp, w1) \<Rightarrow> (Inr resp, w1)
      | (Inl e, w1) \<Rightarrow>
          if retry_if_exception e
          then (if attempt_number \<ge> MAX_RETRIES cfg then (Inl e, w1)
                else make_request_from cfg env r (attempt_number + 1) w1)
          else (Inl e, w1))"
  by pat_completeness auto
termination
  by (relation "measure (\<lambda>(cfg, env, r, attempt_number, w). nat (MAX_RETRIES cfg - attempt_number))")
     auto

definition make_request :: "config \<Rightarrow> env \<Rightarrow> request \<Rightarrow> world \<Rightarrow> (exn + response) \<times> world" where
  "make_request cfg env r w = make_request_from cfg env r 1 w"

record PaginatedResponse =
  page :: int
  total_pages :: int
  items :: "AnimalSummary list"

text \<open>\<open>get_animals_page(page, page_size)\<close>, with \<open>check_pagination\<close> of the model.\<close>

definition get_animals_page ::
  "config \<Rightarrow> env \<Rightarrow> int \<Rightarrow> int \<Rightarrow> world \<Rightarrow> (exn + PaginatedResponse) \<times> world" where
  "get_animals_page cfg env pg page_size w =
     (case make_request cfg env (GetList pg page_size) w of
        (Inl e, w1) \<Rightarrow> (Inl e, w1)
      | (Inr resp, w1) \<Rightarrow>
          (case body resp of
             ListBody p tp its \<Rightarrow>
               if p < 1 \<or> tp < 1 then (Inl (APIError None), w1)
               else (Inr \<lparr>page = p, total_pages = tp, items = its\<rparr>, w1)
           | DetailBody i n f b e \<Rightarrow> (Inl (APIError None), w1)
           | InvalidBody \<Rightarrow> (Inl (APIError None), w1)
           | UnexpectedBody \<Rightarrow> (Inl OtherError, w1)))"

text \<open>
  \<open>get_all_animals()\<close>: the \<open>while True\<close> loop. It need not end (a server may report
  ever more pages), so the loop is a partial function and \<open>None\<close> stands for a call that
  does not return.
\<close>

partial_function (option) get_all_animals_loop ::
  "config \<Rightarrow> env \<Rightarrow> int \<Rightarrow> AnimalSummary list \<Rightarrow> world
   \<Rightarrow> ((exn + AnimalSummary list) \<times> world) option" where
  "get_all_animals_loop cfg env current_page all_animals w =
     (case get_animals_page cfg env current_page (DEFAULT_PAGE_SIZE cfg) w of
        (Inl e, w1) \<Rightarrow> Some (Inl e, w1)
      | (Inr page_response, w1) \<Rightarrow>
          if current_page \<ge> total_pages page_response
          then Some (Inr (all_animals @ items page_response), w1)
          else get_all_animals_loop cfg env (current_page + 1)
                 (all_animals @ items page_response) w1)"

definition get_all_animals ::
  "config \<Rightarrow> env \<Rightarrow> world \<Rightarrow> ((exn + AnimalSummary list) \<times> world) option" where
  "get_all_animals cfg env w = get_all_animals_loop cfg env (START_PAGE cfg) [] w"

text \<open>\<open>get_animal_detail(animal_id)\<close>.\<close>

definition get_animal_detail ::
  "config \<Rightarrow> env \<Rightarrow> int \<Rightarrow> world \<Rightarrow> (exn + AnimalDetail) \<times> world" where
  "get_animal_detail cfg env animal_id w =
     (case make_request cfg env (GetDetail animal_id) w of
        (Inl e, w1) \<Rightarrow> (Inl e, w1)
      | (Inr resp, w1) \<Rightarrow>
          (case body resp of
             DetailBody i n f b e \<Rightarrow> (Inr (AnimalDetail_init i n f b e), w1)
           | ListBody p tp its \<Rightarrow> (Inl (APIError None), w1)
           | InvalidBody \<Rightarrow> (Inl (APIError None), w1)
           | UnexpectedBody \<Rightarrow> (Inl OtherError, w1)))"

text \<open>\<open>submit_animals_batch(animals)\<close>.\<close>

definition submit_animals_batch ::
  "config \<Rightarrow> env \<Rightarrow> TransformedAnimal list \<Rightarrow> world \<Rightarrow> (exn + bool) \<times> world" where
  "submit_animals_batch cfg env animals w =
     (if length animals > 100 then (Inl ValueError, w)
      else
        (case make_request cfg env (PostHome animals)
                (logger (SubmittingBatch (int (length animals))) w) of
           (Inr resp, w1) \<Rightarrow> (Inr True, logger (SubmittedBatch (int (length animals))) w1)
         | (Inl (APIError s), w1) \<Rightarrow>
             (Inl (APIError s), logger (SubmitFailed (int (length animals))) w1)
         | (Inl e, w1) \<Rightarrow> (Inl e, w1)))"

text \<open>Example networks: one answering every request with 404, and a listing of two pages
  (three and two items) whose detail and submission requests succeed.\<close>

definition always_404 :: env where
  "always_404 h r = Response \<lparr>status_code = 404, body = InvalidBody\<rparr>"

definition example_pages :: "int \<Rightarrow> AnimalSummary list" where
  "example_pages k =
     (if k = 1 then [\<lparr>id_s = 1, name_s = ''ant''\<rparr>, \<lparr>id_s = 2, name_s = ''bee''\<rparr>,
                     \<lparr>id_s = 3, name_s = ''cat''\<rparr>]
      else [\<lparr>id_s = 4, name_s = ''dog''\<rparr>, \<lparr>id_s = 5, name_s = ''eel''\<rparr>])"

definition example_env :: env where
  "example_env h r =
     (case r of
        GetList k per_page \<Rightarrow>
          Response \<lparr>status_code = 200, body = ListBody k 2 (example_pages k)\<rparr>
      | GetDetail i \<Rightarrow>
          Response \<lparr>status_code = 200,
                    body = DetailBody i ''cat'' (RawStr ''a,b'') (BornStr ''2020-01-01'') []\<rparr>
      | PostHome animals \<Rightarrow> Response \<lparr>status_code = 200, body = InvalidBody\<rparr>)"

text \<open>An example record and the initial state of the world.\<close>

definition example_animal :: TransformedAnimal where
  "example_animal = \<lparr>id_t = 1, name_t = ''cat'', friends_t = [''a'', ''b''],
                      born_at_t = Some ''2020-01-01T00:00:00+00:00'', extra_t = []\<rparr>"

definition world0 :: world where
  "world0 = \<lparr>sent = [], log = []\<rparr>"

section \<open>etl_processor.py\<close>

text \<open>\<open>ETLStats\<close>, without the two time stamps, and the processor that owns it.\<close>

record ETLStats =
  total_animals_found :: int
  total_animals_detailed :: int
  total_animals_transformed :: int
  total_animals_submitted :: int
  total_batches_submitted :: int
  failed_details :: int
  failed_transformations :: int
  failed_submissions :: int

definition ETLStats_init :: ETLStats where
  "ETLStats_init =
     \<lparr>total_animals_found = 0, total_animals_detailed = 0, total_animals_transformed = 0,
      total_animals_submitted = 0, total_batches_submitted = 0, failed_details = 0,
      failed_transformations = 0, failed_submissions = 0\<rparr>"

record processor =
  batch_size :: int
  stats :: ETLStats

definition AnimalETLProcessor_init :: "int \<Rightarrow> processor" where
  "AnimalETLProcessor_init b = \<lparr>batch_size = b, stats = ETLStats_init\<rparr>"

text \<open>\<open>extract_animals(client)\<close>: the \<open>except APIError\<close> clause logs and raises again.\<close>

definition extract_animals ::
  "config \<Rightarrow> env \<Rightarrow> processor \<Rightarrow> world
   \<Rightarrow> ((exn + AnimalSummary list) \<times> processor \<times> world) option" where
  "extract_animals cfg env p w =
     (case get_all_animals cfg env w of
        None \<Rightarrow> None
      | Some (Inr animals, w1) \<Rightarrow>
          Some (Inr animals,
                p\<lparr>stats := (stats p)\<lparr>total_animals_found := int (length animals)\<rparr>\<rparr>, w1)
      | Some (Inl e, w1) \<Rightarrow> Some (Inl e, p, w1))"

text \<open>
  \<open>extract_animal_details(client, animal_summaries)\<close>: the loop catches \<open>APIError\<close> only;
  another exception leaves the loop and the function.
\<close>

fun details_loop ::
  "config \<Rightarrow> env \<Rightarrow> AnimalSummary list \<Rightarrow> AnimalDetail list \<Rightarrow> int \<Rightarrow> world
   \<Rightarrow> (exn + AnimalDetail list \<times> int) \<times> world" where
  "details_loop cfg env [] animal_details failed_count w =
     (Inr (animal_details, failed_count), w)"
| "details_loop cfg env (animal_summary # rest) animal_details failed_count w =
     (case get_animal_detail cfg env (id_s animal_summary) w of
        (Inr detail, w1) \<Rightarrow>
          details_loop cfg env rest (animal_details @ [detail]) failed_count w1
      | (Inl (APIError s), w1) \<Rightarrow>
          details_loop cfg env rest animal_details (failed_count + 1) w1
      | (Inl e, w1) \<Rightarrow> (Inl e, w1))"

definition extract_animal_details ::
  "config \<Rightarrow> env \<Rightarrow> processor \<Rightarrow> AnimalSummary list \<Rightarrow> world
   \<Rightarrow> (exn + AnimalDetail list) \<times> processor \<times> world" where
  "extract_animal_details cfg env p animal_summaries w =
     (case details_loop cfg env animal_summaries [] 0 w of
        (Inl e, w1) \<Rightarrow> (Inl e, p, w1)
      | (Inr (animal_details, failed_count), w1) \<Rightarrow>
          (Inr animal_details,
           p\<lparr>stats := (stats p)\<lparr>total_animals_detailed := int (length animal_details),
                                 failed_details := failed_count\<rparr>\<rparr>,
           w1))"

text \<open>\<open>transform_animals(animal_details)\<close>.\<close>

definition transform_animals ::
  "(string \<Rightarrow> exn + datetime) \<Rightarrow> processor \<Rightarrow> AnimalDetail list
   \<Rightarrow> TransformedAnimal list \<times> processor" where
  "transform_animals parse p animal_details =
     (let initial_count = int (length animal_details);
          transformed_animals = transform_animals_batch parse animal_details
      in (transformed_animals,
          p\<lparr>stats := (stats p)\<lparr>
               total_animals_transformed := int (length transformed_animals),
               failed_transformations := initial_count - int (length transformed_animals)\<rparr>\<rparr>))"

text \<open>
  \<open>range(0, stop, step)\<close> for \<open>stop \<ge> 0\<close>: a step of 0 raises \<open>ValueError\<close>, a negative
  step gives the empty range. \<open>xs[i:j]\<close> for \<open>0 \<le> i \<le> j\<close>.
\<close>

definition py_range :: "int \<Rightarrow> int \<Rightarrow> exn + int list" where
  "py_range stop step =
     (if step = 0 then Inl ValueError
      else if step < 0 then Inr []
      else Inr (map (\<lambda>k. int k * step) [0..<nat ((stop + step - 1) div step)]))"

definition slice :: "'a list \<Rightarrow> int \<Rightarrow> int \<Rightarrow> 'a list" where
  "slice xs i j = take (nat (j - i)) (drop (nat i) xs)"

text \<open>
  \<open>load_animals(client, transformed_animals)\<close>: the loop over the indices of the range,
  with its three counters; \<open>APIError\<close> and \<open>ValueError\<close> are caught and counted.
\<close>

fun load_loop ::
  "config \<Rightarrow> env \<Rightarrow> TransformedAnimal list \<Rightarrow> int \<Rightarrow> int list \<Rightarrow> int \<Rightarrow> int \<Rightarrow> int
   \<Rightarrow> world \<Rightarrow> (exn + int \<times> int \<times> int) \<times> world" where
  "load_loop cfg env transformed_animals bs [] total_submitted failed_batches batch_number w =
     (Inr (total_submitted, failed_batches, batch_number), w)"
| "load_loop cfg env transformed_animals bs (i # rest) total_submitted failed_batches
     batch_number w =
     (let batch = slice transformed_animals i (i + bs);
          w0 = logger (ProcessingBatch (batch_number + 1) (int (length batch))) w
      in case submit_animals_batch cfg env batch w0 of
           (Inr success, w1) \<Rightarrow>
             if success
             then load_loop cfg env transformed_animals bs rest
                    (total_submitted + int (length batch)) failed_batches (batch_number + 1)
                    (logger (BatchOk (batch_number + 1)) w1)
             else load_loop cfg env transformed_animals bs rest
                    total_submitted (failed_batches + 1) (batch_number + 1)
                    (logger (BatchError (batch_number + 1)) w1)
         | (Inl (APIError s), w1) \<Rightarrow>
             load_loop cfg env transformed_animals bs rest
               total_submitted (failed_batches + 1) (batch_number + 1)
               (logger (BatchError (batch_number + 1)) w1)
         | (Inl ValueError, w1) \<Rightarrow>
             load_loop cfg env transformed_animals bs rest
               total_submitted (failed_batches + 1) (batch_number + 1)
               (logger (BatchError (batch_number + 1)) w1)
         | (Inl e, w1) \<Rightarrow> (Inl e, w1))"

definition load_animals ::
  "config \<Rightarrow> env \<Rightarrow> processor \<Rightarrow> TransformedAnimal list \<Rightarrow> world
   \<Rightarrow> (exn + bool) \<times> processor \<times> world" where
  "load_animals cfg env p transformed_animals w =
     (case py_range (int (length transformed_animals)) (batch_size p) of
        Inl e \<Rightarrow> (Inl e, p, w)
      | Inr indices \<Rightarrow>
          (case load_loop cfg env transformed_animals (batch_size p) indices 0 0 0 w of
             (Inl e, w1) \<Rightarrow> (Inl e, p, w1)
           | (Inr (total_submitted, failed_batches, batch_number), w1) \<Rightarrow>
               (Inr (failed_batches = 0),
                p\<lparr>stats := (stats p)\<lparr>
                     total_animals_submitted := total_submitted,
                     total_batches_submitted := batch_number - failed_batches,
                     failed_submissions := failed_batches\<rparr>\<rparr>,
                w1)))"

text \<open>
  \<open>run()\<close>: every exception that reaches the \<open>except Exception\<close> clause gives \<open>False\<close>.
  \<open>None\<close> stands for a run that does not return.
\<close>

definition run ::
  "config \<Rightarrow> (string \<Rightarrow> exn + datetime) \<Rightarrow> env \<Rightarrow> processor \<Rightarrow> world
   \<Rightarrow> (bool \<times> processor \<times> world) option" where
  "run cfg parse env p w =
     (case extract_animals cfg env p w of
        None \<Rightarrow> None
      | Some (Inl e, p1, w1) \<Rightarrow> Some (False, p1, w1)
      | Some (Inr animal_summaries, p1, w1) \<Rightarrow>
          if animal_summaries = [] then Some (True, p1, w1)
          else
            (case extract_animal_details cfg env p1 animal_summaries w1 of
               (Inl e, p2, w2) \<Rightarrow> Some (False, p2, w2)
             | (Inr animal_details, p2, w2) \<Rightarrow>
                 if animal_details = [] then Some (False, p2, w2)
                 else
                   (case transform_animals parse p2 animal_details of
                      (transformed_animals, p3) \<Rightarrow>
                        if transformed_animals = [] then Some (False, p3, w2)
                        else
                          (case load_animals cfg env p3 transformed_animals w2 of
                             (Inl e, p4, w4) \<Rightarrow> Some (False, p4, w4)
                           | (Inr load_success, p4, w4) \<Rightarrow> Some (load_success, p4, w4)))))"

text \<open>The sizes logged for the batches submitted with success, summed; and the batches
  of a list for a positive batch size.\<close>

fun submitted_total :: "event list \<Rightarrow> int" where
  "submitted_total [] = 0"
| "submitted_total (SubmittedBatch n # es) = n + submitted_total es"
| "submitted_total (e # es) = submitted_total es"

definition batches :: "'a list \<Rightarrow> int \<Rightarrow> 'a list list" where
  "batches xs bs =
     (case py_range (int (length xs)) bs of
        Inl e \<Rightarrow> []
      | Inr indices \<Rightarrow> map (\<lambda>i. slice xs i (i + bs)) indices)"

text \<open>A network like \<open>example_env\<close> whose detail requests are answered with a body that
  is not a JSON object.\<close>

definition unexpected_detail_env :: env where
  "unexpected_detail_env h r =
     (case r of
        GetDetail i \<Rightarrow> Response \<lparr>status_code = 200, body = UnexpectedBody\<rparr>
      | _ \<Rightarrow> example_env h r)"

text \<open>The log lines written by \<open>_make_request\<close>, and the number of batches logged as
  failed by \<open>load_animals\<close>.\<close>

fun transport_event :: "event \<Rightarrow> bool" where
  "transport_event (RetryableStatus s) = True"
| "transport_event TimeoutWarning = True"
| "transport_event ConnectionWarning = True"
| "transport_event (NonRetryable s) = True"
| "transport_event RequestWarning = True"
| "transport_event e = False"

fun batch_errors :: "event list \<Rightarrow> int" where
  "batch_errors [] = 0"
| "batch_errors (BatchError n # es) = 1 + batch_errors es"
| "batch_errors (e # es) = batch_errors es"

text \<open>A network like \<open>example_env\<close> that answers the submission of a batch of two records
  with status 400.\<close>

definition reject_pairs_env :: env where
  "reject_pairs_env h r =
     (case r of
        PostHome animals \<Rightarrow>
          if length animals = 2 then Response \<lparr>status_code = 400, body = InvalidBody\<rparr>
          else Response \<lparr>status_code = 200, body = InvalidBody\<rparr>
      | _ \<Rightarrow> example_env h r)"

text \<open>The five summaries of the example listing, the details fetched for them and their
  transformed records.\<close>

definition example_summaries :: "AnimalSummary list" where
  "example_summaries = example_pages 1 @ example_pages 2"



text \<open>
  The load phase in the words of the specification: the batches are submitted one after
  the other, in order, each announced in the log; a batch whose submission does not
  return \<open>True\<close> is logged as an error, and the next batch is submitted all the same. The
  result is the list of the outcomes, one for each batch. \<open>submitted_records\<close> adds up
  the sizes of the batches that succeeded.
\<close>

definition succeeded :: "exn + bool \<Rightarrow> bool" where
  "succeeded r = (r = Inr True)"

fun submit_each ::
  "config \<Rightarrow> env \<Rightarrow> TransformedAnimal list list \<Rightarrow> int \<Rightarrow> world
   \<Rightarrow> (exn + bool) list \<times> world" where
  "submit_each cfg env [] k w = ([], w)"
| "submit_each cfg env (b # bs) k w =
     (case submit_animals_batch cfg env b (logger (ProcessingBatch k (int (length b))) w) of
        (r, w1) \<Rightarrow>
          (case submit_each cfg env bs (k + 1)
                  (logger (if succeeded r then BatchOk k else BatchError k) w1) of
             (rs, w2) \<Rightarrow> (r # rs, w2)))"

definition submitted_records :: "TransformedAnimal list list \<Rightarrow> (exn + bool) list \<Rightarrow> int" where
  "submitted_records bs rs =
     sum_list (map2 (\<lambda>b r. if succeeded r then int (length b) else 0) bs rs)"

text \<open>A network like \<open>example_env\<close> whose detail requests are answered with a body that
  the model rejects.\<close>

definition invalid_detail_env :: env where
  "invalid_detail_env h r =
     (case r of
        GetDetail i \<Rightarrow> Response \<lparr>status_code = 200, body = InvalidBody\<rparr>
      | _ \<Rightarrow> example_env h r)"

section \<open>Facts about strings\<close>

lemma split_acc_nonempty: "split_acc sep cur s \<noteq> []"
  by (induction s arbitrary: cur) auto

lemma join_Cons: "ps \<noteq> [] \<Longrightarrow> join sep (p # ps) = p @ sep # join sep ps"
  by (cases ps) auto

lemma join_split_acc: "join sep (split_acc sep cur s) = rev cur @ s"
  by (induction s arbitrary: cur) (auto simp: join_Cons split_acc_nonempty)

lemma join_split_on: "join sep (split_on sep s) = s"
  by (simp add: split_on_def join_split_acc)

lemma split_acc_no_sep:
  "sep \<notin> set cur \<Longrightarrow> \<forall>p \<in> set (split_acc sep cur s). sep \<notin> set p"
proof (induction s arbitrary: cur)
  case Nil
  then show ?case by simp
next
  case (Cons c cs)
  show ?case
  proof (cases "c = sep")
    case True
    have "\<forall>p \<in> set (split_acc sep [] cs). sep \<notin> set p"
      by (rule Cons.IH) simp
    with True Cons.prems show ?thesis by simp
  next
    case False
    with Cons.prems have "sep \<notin> set (c # cur)" by auto
    then have "\<forall>p \<in> set (split_acc sep (c # cur) cs). sep \<notin> set p"
      by (rule Cons.IH)
    with False show ?thesis by simp
  qed
qed

lemma split_on_no_sep: "p \<in> set (split_on sep s) \<Longrightarrow> sep \<notin> set p"
  using split_acc_no_sep [of sep "[]" s] by (simp add: split_on_def)

lemma strip_empty_iff: "strip s = [] \<longleftrightarrow> list_all isspace s"
proof
  assume "strip s = []"
  then have all: "\<forall>x \<in> set (dropWhile isspace s). isspace x"
    by (simp add: strip_def dropWhile_eq_Nil_conv)
  have "dropWhile isspace s = []"
  proof (rule ccontr)
    assume ne: "dropWhile isspace s \<noteq> []"
    then have "\<not> isspace (hd (dropWhile isspace s))" by (rule hd_dropWhile)
    moreover have "hd (dropWhile isspace s) \<in> set (dropWhile isspace s)"
      using ne by simp
    ultimately show False using all by blast
  qed
  then show "list_all isspace s"
    by (simp only: dropWhile_eq_Nil_conv list_all_iff)
next
  assume "list_all isspace s"
  then have "dropWhile isspace s = []"
    by (simp only: dropWhile_eq_Nil_conv list_all_iff)
  then show "strip s = []" by (simp only: strip_def rev.simps dropWhile.simps)
qed

lemma strip_not_blank: "strip s \<noteq> [] \<Longrightarrow> \<not> list_all isspace (strip s)"
proof -
  assume ne: "strip s \<noteq> []"
  let ?b = "dropWhile isspace (rev (dropWhile isspace s))"
  from ne have b: "?b \<noteq> []" by (simp add: strip_def)
  then have "\<not> isspace (hd ?b)" by (rule hd_dropWhile)
  moreover have "hd ?b \<in> set ?b" using b by simp
  moreover have "set (strip s) = set ?b" by (simp add: strip_def)
  ultimately show ?thesis unfolding list_all_iff by blast
qed

lemma split_acc_blank:
  "list_all isspace cur \<Longrightarrow> list_all isspace s \<Longrightarrow>
   \<forall>p \<in> set (split_acc sep cur s). list_all isspace p"
proof (induction s arbitrary: cur)
  case Nil
  then show ?case by simp
next
  case (Cons c cs)
  from Cons.prems have c: "isspace c" and cs: "list_all isspace cs" by simp_all
  show ?case
  proof (cases "c = sep")
    case True
    have "\<forall>p \<in> set (split_acc sep [] cs). list_all isspace p"
      using cs by (intro Cons.IH) simp_all
    with True Cons.prems show ?thesis by simp
  next
    case False
    have "\<forall>p \<in> set (split_acc sep (c # cur) cs). list_all isspace p"
      using c cs Cons.prems(1) by (intro Cons.IH) simp_all
    with False show ?thesis by simp
  qed
qed

lemma split_pieces_blank:
  "list_all isspace s \<Longrightarrow> p \<in> set (split_on sep s) \<Longrightarrow> list_all isspace p"
  using split_acc_blank [of "[]" s sep] by (simp add: split_on_def)

lemma transform_friends_formula:
  "transform_friends (Some s) = filter (\<lambda>p. p \<noteq> []) (map strip (split_on (CHR '','') s))"
proof (cases "s = [] \<or> strip s = []")
  case True
  then have blank: "list_all isspace s" by (auto simp: strip_empty_iff)
  have "\<forall>p \<in> set (split_on (CHR '','') s). strip p = []"
    using split_pieces_blank [OF blank] by (simp add: strip_empty_iff)
  then have "filter (\<lambda>p. p \<noteq> []) (map strip (split_on (CHR '','') s)) = []"
    by (simp add: filter_empty_conv)
  with True show ?thesis by (simp add: transform_friends_def)
next
  case False
  then show ?thesis by (simp add: transform_friends_def)
qed

section \<open>Facts about the transformer\<close>

lemmas dt_eval = isoformat_def fmt02_def fmt04_def fmt06_def digit_char_def format_offset_def
  replace_tzinfo_utc_def to_utc_iso_def astimezone_utc_def to_microseconds_def ymd2ord_def
  days_before_year_def days_before_month_def DAYS_BEFORE_MONTH_def DAYS_IN_MONTH_def
  is_leap_def ord2ymd_def Let_def

lemma transform_animal_friends_t:
  "transform_animal parse a = Inr t \<Longrightarrow>
   friends_t t = (case friends_d a of FriendsList l \<Rightarrow> l
                  | FriendsStr s \<Rightarrow> transform_friends (Some s))"
  unfolding transform_animal_def Let_def
  by (auto split: sum.splits exn.splits)

lemma transform_friends_no_blank:
  "x \<in> set (transform_friends (Some s)) \<Longrightarrow> x \<noteq> [] \<and> \<not> list_all isspace x"
proof -
  assume "x \<in> set (transform_friends (Some s))"
  then obtain p where x: "x = strip p" and ne: "strip p \<noteq> []"
    unfolding transform_friends_formula by auto
  from ne have "\<not> list_all isspace (strip p)" by (rule strip_not_blank)
  with x ne show ?thesis by simp
qed

lemma batch_loop_eq:
  "batch_loop parse animals acc errs =
     (acc @ concat (map (\<lambda>a. case transform_animal parse a of Inl e \<Rightarrow> [] | Inr t \<Rightarrow> [t]) animals),
      errs @ map id_d (filter (\<lambda>a. isl (transform_animal parse a)) animals))"
  by (induction animals arbitrary: acc errs) (simp_all split: sum.splits exn.splits)

lemma successes_failures_length:
  "length (concat (map (\<lambda>a. case transform_animal parse a of Inl e \<Rightarrow> [] | Inr t \<Rightarrow> [t]) animals))
   + length (filter (\<lambda>a. isl (transform_animal parse a)) animals) = length animals"
  by (induction animals) (simp_all split: sum.splits)

lemma unparseable_born_at:
  "born_at_d a = BornStr s \<Longrightarrow> strip s \<noteq> [] \<Longrightarrow> parse s = Inl ValueError \<Longrightarrow>
   transform_animal parse a = Inl (TransformationError None (Some ''born_at''))"
  by (simp add: transform_animal_def transform_born_at_def)

lemma ex_ok: "transform_animal parse_iso_day (example_detail i ''2020-01-01'') =
  Inr \<lparr>id_t = i, name_t = ''cat'', friends_t = [''a'', ''b''],
       born_at_t = Some ''2020-01-01T00:00:00+00:00'', extra_t = []\<rparr>"
  by (simp add: example_detail_def transform_animal_def AnimalDetail_init_def
      validate_friends_def validate_born_at_def transform_born_at_def parse_iso_day_def
      transform_friends_formula split_on_def strip_def isspace_def dt_eval)

lemma ex_none: "transform_animal parse_iso_day (example_detail i []) =
  Inr \<lparr>id_t = i, name_t = ''cat'', friends_t = [''a'', ''b''],
       born_at_t = None, extra_t = []\<rparr>"
  by (simp add: example_detail_def transform_animal_def AnimalDetail_init_def
      validate_friends_def validate_born_at_def transform_born_at_def parse_iso_day_def
      transform_friends_formula split_on_def strip_def isspace_def)

lemma ex_bad: "born_at_d (example_detail 3 ''not-a-date'') = BornStr ''not-a-date''
   \<and> strip ''not-a-date'' \<noteq> [] \<and> parse_iso_day ''not-a-date'' = Inl ValueError"
  by (simp add: example_detail_def AnimalDetail_init_def validate_born_at_def
      parse_iso_day_def strip_def isspace_def)

lemma attempt_sent: "sent (snd (attempt env r w)) = sent w @ [r]"
  by (simp add: attempt_def session_request_def logger_def split: outcome.splits)

lemma attempt_error: "attempt env r w = (Inl e, w1) \<Longrightarrow> \<exists>s. e = APIError s"
  by (auto simp: attempt_def session_request_def split: outcome.splits if_splits)

lemma attempt_ok:
  "env (sent w) r = Response resp \<Longrightarrow> status_code resp \<notin> set RETRY_STATUS_CODES \<Longrightarrow>
   \<not> (400 \<le> status_code resp \<and> status_code resp < 600) \<Longrightarrow>
   attempt env r w = (Inr resp, w\<lparr>sent := sent w @ [r]\<rparr>)"
  by (simp add: attempt_def session_request_def)

lemma make_request_ok:
  "env (sent w) r = Response resp \<Longrightarrow> status_code resp \<notin> set RETRY_STATUS_CODES \<Longrightarrow>
   \<not> (400 \<le> status_code resp \<and> status_code resp < 600) \<Longrightarrow>
   make_request cfg env r w = (Inr resp, w\<lparr>sent := sent w @ [r]\<rparr>)"
  unfolding make_request_def
  by (subst make_request_from.simps) (simp add: attempt_ok)

lemma make_request_from_sent:
  "\<exists>n\<ge>1. sent (snd (make_request_from cfg env r k w)) = sent w @ replicate n r"
proof (induction cfg env r k w rule: make_request_from.induct)
  case (1 cfg env r k w)
  obtain res w1 where a: "attempt env r w = (res, w1)" by (cases "attempt env r w")
  then have s1: "sent w1 = sent w @ [r]" using attempt_sent [of env r w] by simp
  have base: "\<exists>n\<ge>1. sent w1 = sent w @ replicate n r"
    using s1 by (intro exI [of _ 1]) simp
  show ?case
  proof (cases res)
    case (Inr resp)
    with a base show ?thesis by (subst make_request_from.simps) simp
  next
    case (Inl e)
    show ?thesis
    proof (cases "retry_if_exception e \<and> \<not> k \<ge> MAX_RETRIES cfg")
      case False
      with a Inl base show ?thesis by (subst make_request_from.simps) auto
    next
      case True
      from True have r1: "retry_if_exception e" and r2: "\<not> MAX_RETRIES cfg \<le> k"
        by simp_all
      from "1.IH" [OF a [symmetric] Inl r1 r2] obtain n where n: "n \<ge> 1"
        "sent (snd (make_request_from cfg env r (k + 1) w1)) = sent w1 @ replicate n r"
        by auto
      have "sent (snd (make_request_from cfg env r k w)) = sent w @ replicate (Suc n) r"
        using a Inl True n s1 by (subst make_request_from.simps) (simp add: replicate_app_Cons_same)
      then show ?thesis by (intro exI [of _ "Suc n"]) simp
    qed
  qed
qed

lemma make_request_from_error:
  "make_request_from cfg env r k w = (Inl e, w') \<Longrightarrow> \<exists>s. e = APIError s"
proof (induction cfg env r k w rule: make_request_from.induct)
  case (1 cfg env r k w)
  obtain res w1 where a: "attempt env r w = (res, w1)" by (cases "attempt env r w")
  show ?case
  proof (cases res)
    case (Inr resp)
    with a "1.prems" show ?thesis by (subst (asm) make_request_from.simps) simp
  next
    case (Inl e0)
    from attempt_error a Inl have api: "\<exists>s. e0 = APIError s" by blast
    show ?thesis
    proof (cases "retry_if_exception e0 \<and> \<not> k \<ge> MAX_RETRIES cfg")
      case False
      with a Inl "1.prems" api show ?thesis
        by (subst (asm) make_request_from.simps) (auto split: if_splits)
    next
      case True
      with a Inl "1.prems" have "make_request_from cfg env r (k + 1) w1 = (Inl e, w')"
        by (subst (asm) make_request_from.simps) simp
      moreover from True have "retry_if_exception e0" and "\<not> MAX_RETRIES cfg \<le> k"
        by simp_all
      ultimately show ?thesis
        using "1.IH" [OF a [symmetric] Inl] by blast
    qed
  qed
qed

lemma attempt_404:
  "attempt always_404 r w =
     (Inl (APIError (Some 404)), w\<lparr>sent := sent w @ [r], log := log w @ [NonRetryable 404]\<rparr>)"
  by (simp add: attempt_def session_request_def always_404_def RETRY_STATUS_CODES_def logger_def)

lemma make_request_sent:
  "\<exists>n\<ge>1. sent (snd (make_request cfg env r w)) = sent w @ replicate n r"
  unfolding make_request_def by (rule make_request_from_sent)

lemma make_request_error:
  "make_request cfg env r w = (Inl e, w') \<Longrightarrow> \<exists>s. e = APIError s"
  unfolding make_request_def by (rule make_request_from_error)

lemma submit_sent:
  "length animals \<le> 100 \<Longrightarrow>
   sent (snd (submit_animals_batch cfg env animals w)) =
   sent (snd (make_request cfg env (PostHome animals)
                (logger (SubmittingBatch (int (length animals))) w)))"
  by (simp add: submit_animals_batch_def logger_def split: prod.splits sum.splits exn.splits)

lemma submit_fst:
  "length animals \<le> 100 \<Longrightarrow>
   fst (submit_animals_batch cfg env animals w) =
   map_sum id (\<lambda>resp. True)
     (fst (make_request cfg env (PostHome animals)
             (logger (SubmittingBatch (int (length animals))) w)))"
  by (simp add: submit_animals_batch_def split: prod.splits sum.splits exn.splits)

lemma example_post_ok:
  "make_request default_config example_env (PostHome xs) w =
     (Inr \<lparr>status_code = 200, body = InvalidBody\<rparr>, w\<lparr>sent := sent w @ [PostHome xs]\<rparr>)"
  by (rule make_request_ok) (simp_all add: example_env_def RETRY_STATUS_CODES_def)

lemma get_animals_page_ok:
  "env (sent w) (GetList c ps) = Response \<lparr>status_code = 200, body = ListBody c N its\<rparr> \<Longrightarrow>
   1 \<le> c \<Longrightarrow> 1 \<le> N \<Longrightarrow>
   get_animals_page cfg env c ps w =
     (Inr \<lparr>page = c, total_pages = N, items = its\<rparr>, w\<lparr>sent := sent w @ [GetList c ps]\<rparr>)"
proof -
  assume e: "env (sent w) (GetList c ps) = Response \<lparr>status_code = 200, body = ListBody c N its\<rparr>"
    and c: "1 \<le> c" and n: "1 \<le> N"
  have "make_request cfg env (GetList c ps) w =
     (Inr \<lparr>status_code = 200, body = ListBody c N its\<rparr>, w\<lparr>sent := sent w @ [GetList c ps]\<rparr>)"
    using e by (rule make_request_ok) (simp_all add: RETRY_STATUS_CODES_def)
  then show ?thesis using c n by (simp add: get_animals_page_def)
qed

lemma get_all_animals_loop_pages:
  assumes srv: "\<forall>k\<in>{1..N}. \<forall>h. env h (GetList k (DEFAULT_PAGE_SIZE cfg)) =
                  Response \<lparr>status_code = 200, body = ListBody k N (pages k)\<rparr>"
  shows "1 \<le> c \<Longrightarrow> c \<le> N \<Longrightarrow>
         get_all_animals_loop cfg env c acc w =
           Some (Inr (acc @ concat (map pages [c..N])),
                 w\<lparr>sent := sent w @ map (\<lambda>k. GetList k (DEFAULT_PAGE_SIZE cfg)) [c..N]\<rparr>)"
proof (induction "nat (N - c)" arbitrary: c acc w)
  case 0
  then have cN: "c = N" by simp
  from srv "0.prems" have e: "env (sent w) (GetList c (DEFAULT_PAGE_SIZE cfg)) =
      Response \<lparr>status_code = 200, body = ListBody c N (pages c)\<rparr>" by simp
  from "0.prems" have n1: "1 \<le> N" by simp
  have pg: "get_animals_page cfg env c (DEFAULT_PAGE_SIZE cfg) w =
     (Inr \<lparr>page = c, total_pages = N, items = pages c\<rparr>,
      w\<lparr>sent := sent w @ [GetList c (DEFAULT_PAGE_SIZE cfg)]\<rparr>)"
    using e "0.prems"(1) n1 by (rule get_animals_page_ok)
  have up: "[c..N] = [c]" using cN by simp
  have le: "N \<le> c" using cN by simp
  show ?case
    by (subst get_all_animals_loop.simps) (simp add: pg up le)
next
  case (Suc n)
  then have lt: "c < N" by simp
  from srv Suc.prems have e: "env (sent w) (GetList c (DEFAULT_PAGE_SIZE cfg)) =
      Response \<lparr>status_code = 200, body = ListBody c N (pages c)\<rparr>" by simp
  from Suc.prems have n1: "1 \<le> N" by simp
  have pg: "get_animals_page cfg env c (DEFAULT_PAGE_SIZE cfg) w =
     (Inr \<lparr>page = c, total_pages = N, items = pages c\<rparr>,
      w\<lparr>sent := sent w @ [GetList c (DEFAULT_PAGE_SIZE cfg)]\<rparr>)"
    using e Suc.prems(1) n1 by (rule get_animals_page_ok)
  have up: "[c..N] = c # [c + 1..N]" using lt by (simp add: upto_rec1)
  have m: "n = nat (N - (c + 1))" using Suc.hyps(2) by simp
  have c1: "1 \<le> c + 1" "c + 1 \<le> N" using Suc.prems lt by simp_all
  note ih = Suc.hyps(1) [OF m c1]
  show ?case
    by (subst get_all_animals_loop.simps) (simp add: pg up lt ih not_le [symmetric])
qed

lemma upto_1_2: "[1..2::int] = [1, 2]"
  by (simp add: upto_rec1)

lemma submitted_total_append:
  "submitted_total (xs @ ys) = submitted_total xs + submitted_total ys"
  by (induction xs rule: submitted_total.induct) simp_all

lemma batch_errors_append:
  "batch_errors (xs @ ys) = batch_errors xs + batch_errors ys"
  by (induction xs rule: batch_errors.induct) simp_all

lemma transport_submitted_total:
  "list_all transport_event es \<Longrightarrow> submitted_total es = 0"
  by (induction es rule: submitted_total.induct) simp_all

lemma transport_batch_errors:
  "list_all transport_event es \<Longrightarrow> batch_errors es = 0"
  by (induction es rule: batch_errors.induct) simp_all

lemma attempt_log:
  "\<exists>es. log (snd (attempt env r w)) = log w @ es \<and> list_all transport_event es"
proof (cases "env (sent w) r")
  case Timeout
  then show ?thesis by (simp add: attempt_def session_request_def logger_def)
next
  case ConnectionError
  then show ?thesis by (simp add: attempt_def session_request_def logger_def)
next
  case RequestException
  then show ?thesis by (simp add: attempt_def session_request_def logger_def)
next
  case (Response resp)
  then show ?thesis by (simp add: attempt_def session_request_def logger_def)
qed

lemma make_request_from_log:
  "\<exists>es. log (snd (make_request_from cfg env r k w)) = log w @ es \<and> list_all transport_event es"
proof (induction cfg env r k w rule: make_request_from.induct)
  case (1 cfg env r k w)
  obtain res w1 where a: "attempt env r w = (res, w1)" by (cases "attempt env r w")
  from attempt_log [of env r w] a obtain es1 where
    l1: "log w1 = log w @ es1" and t1: "list_all transport_event es1" by auto
  have base: "\<exists>es. log w1 = log w @ es \<and> list_all transport_event es"
    using l1 t1 by blast
  show ?case
  proof (cases res)
    case (Inr resp)
    with a base show ?thesis by (subst make_request_from.simps) simp
  next
    case (Inl e)
    show ?thesis
    proof (cases "retry_if_exception e \<and> \<not> k \<ge> MAX_RETRIES cfg")
      case False
      with a Inl base show ?thesis by (subst make_request_from.simps) auto
    next
      case True
      from True have r1: "retry_if_exception e" and r2: "\<not> MAX_RETRIES cfg \<le> k"
        by simp_all
      from "1.IH" [OF a [symmetric] Inl r1 r2] obtain es2 where
        l2: "log (snd (make_request_from cfg env r (k + 1) w1)) = log w1 @ es2"
        and t2: "list_all transport_event es2" by auto
      have "log (snd (make_request_from cfg env r k w)) = log w @ (es1 @ es2)"
        using a Inl True l1 l2 by (subst make_request_from.simps) simp
      moreover have "list_all transport_event (es1 @ es2)" using t1 t2 by simp
      ultimately show ?thesis by blast
    qed
  qed
qed

lemma make_request_log:
  "\<exists>es. log (snd (make_request cfg env r w)) = log w @ es \<and> list_all transport_event es"
  unfolding make_request_def by (rule make_request_from_log)

lemma submit_cases:
  assumes s: "submit_animals_batch cfg env b w = (res, w')"
  shows "(res = Inr True \<and> length b \<le> 100
            \<and> submitted_total (log w') = submitted_total (log w) + int (length b))
         \<or> ((res = Inl ValueError \<or> (\<exists>s. res = Inl (APIError s)))
            \<and> submitted_total (log w') = submitted_total (log w))"
    and "batch_errors (log w') = batch_errors (log w)"
    and "length b > 100 \<Longrightarrow> res = Inl ValueError \<and> w' = w"
    and "length b \<le> 100 \<Longrightarrow> \<exists>n\<ge>1. sent w' = sent w @ replicate n (PostHome b)"
proof -
  show big: "length b > 100 \<Longrightarrow> res = Inl ValueError \<and> w' = w"
    using s by (simp add: submit_animals_batch_def)
  let ?w0 = "logger (SubmittingBatch (int (length b))) w"
  obtain r1 w1 where m: "make_request cfg env (PostHome b) ?w0 = (r1, w1)"
    by (cases "make_request cfg env (PostHome b) ?w0")
  from make_request_log [of cfg env "PostHome b" ?w0] m obtain es where
    l1: "log w1 = log w @ [SubmittingBatch (int (length b))] @ es"
    and t1: "list_all transport_event es" by (auto simp: logger_def)
  have st1: "submitted_total (log w1) = submitted_total (log w)"
    using l1 transport_submitted_total [OF t1] by (simp add: submitted_total_append)
  have be1: "batch_errors (log w1) = batch_errors (log w)"
    using l1 transport_batch_errors [OF t1] by (simp add: batch_errors_append)
  show "length b \<le> 100 \<Longrightarrow> \<exists>n\<ge>1. sent w' = sent w @ replicate n (PostHome b)"
  proof -
    assume le: "length b \<le> 100"
    from make_request_sent [of cfg env "PostHome b" ?w0]
    have "\<exists>n\<ge>1. sent (snd (submit_animals_batch cfg env b w)) = sent w @ replicate n (PostHome b)"
      unfolding submit_sent [OF le] by (simp add: logger_def)
    with s show ?thesis by simp
  qed
  show "batch_errors (log w') = batch_errors (log w)"
  proof (cases "length b > 100")
    case True
    with big show ?thesis by simp
  next
    case False
    show ?thesis
    proof (cases r1)
      case (Inr resp)
      with s m False be1 show ?thesis
        by (auto simp: submit_animals_batch_def logger_def batch_errors_append)
    next
      case (Inl e)
      with make_request_error m obtain c where "e = APIError c" by blast
      with s m False be1 Inl show ?thesis
        by (auto simp: submit_animals_batch_def logger_def batch_errors_append)
    qed
  qed
  show "(res = Inr True \<and> length b \<le> 100
            \<and> submitted_total (log w') = submitted_total (log w) + int (length b))
         \<or> ((res = Inl ValueError \<or> (\<exists>s. res = Inl (APIError s)))
            \<and> submitted_total (log w') = submitted_total (log w))"
  proof (cases "length b > 100")
    case True
    with big show ?thesis by simp
  next
    case False
    show ?thesis
    proof (cases r1)
      case (Inr resp)
      with s m False st1 show ?thesis
        by (auto simp: submit_animals_batch_def logger_def submitted_total_append)
    next
      case (Inl e)
      with make_request_error m obtain c where "e = APIError c" by blast
      with s m False st1 Inl show ?thesis
        by (auto simp: submit_animals_batch_def logger_def submitted_total_append)
    qed
  qed
qed

lemma load_loop_step:
  assumes s: "submit_animals_batch cfg env (slice tr i (i + bs))
      (logger (ProcessingBatch (bn + 1) (int (length (slice tr i (i + bs))))) w) = (res, w1)"
  shows "load_loop cfg env tr bs (i # rest) ts fb bn w =
     (if res = Inr True
      then load_loop cfg env tr bs rest (ts + int (length (slice tr i (i + bs)))) fb (bn + 1)
             (logger (BatchOk (bn + 1)) w1)
      else load_loop cfg env tr bs rest ts (fb + 1) (bn + 1)
             (logger (BatchError (bn + 1)) w1))"
proof -
  from submit_cases(1) [OF s]
  consider "res = Inr True" | "res = Inl ValueError" | c where "res = Inl (APIError c)"
    by blast
  then show ?thesis
  proof cases
    case 1
    with s show ?thesis by (simp add: Let_def)
  next
    case 2
    with s show ?thesis by (simp add: Let_def)
  next
    case 3
    with s show ?thesis by (simp add: Let_def)
  qed
qed

lemma load_loop_inv:
  "\<exists>ts' fb' w'.
     load_loop cfg env tr bs idx ts fb bn w = (Inr (ts', fb', bn + int (length idx)), w')
     \<and> ts' = ts + (submitted_total (log w') - submitted_total (log w))
     \<and> ts \<le> ts'
     \<and> ts' \<le> ts + sum_list (map (\<lambda>i. int (length (slice tr i (i + bs)))) idx)
     \<and> fb' = fb + (batch_errors (log w') - batch_errors (log w))
     \<and> fb \<le> fb'
     \<and> fb' \<le> fb + int (length idx)
     \<and> set (sent w) \<subseteq> set (sent w')
     \<and> (\<forall>r\<in>set (sent w'). r \<in> set (sent w) \<or>
           (\<exists>i\<in>set idx. r = PostHome (slice tr i (i + bs)) \<and> length (slice tr i (i + bs)) \<le> 100))
     \<and> (\<forall>i\<in>set idx. length (slice tr i (i + bs)) \<le> 100 \<longrightarrow>
           PostHome (slice tr i (i + bs)) \<in> set (sent w'))
     \<and> ((\<forall>i\<in>set idx. length (slice tr i (i + bs)) > 100) \<longrightarrow>
           sent w' = sent w \<and> fb' = fb + int (length idx))"
proof (induction idx arbitrary: ts fb bn w)
  case Nil
  show ?case by simp
next
  case (Cons i rest)
  let ?b = "slice tr i (i + bs)"
  let ?w0 = "logger (ProcessingBatch (bn + 1) (int (length ?b))) w"
  obtain res w1 where s: "submit_animals_batch cfg env ?b ?w0 = (res, w1)"
    by (cases "submit_animals_batch cfg env ?b ?w0")
  define ts1 where "ts1 = (if res = Inr True then ts + int (length ?b) else ts)"
  define fb1 where "fb1 = (if res = Inr True then fb else fb + 1)"
  define w2 where "w2 = (if res = Inr True then logger (BatchOk (bn + 1)) w1
                         else logger (BatchError (bn + 1)) w1)"
  have l0: "submitted_total (log ?w0) = submitted_total (log w)"
    "batch_errors (log ?w0) = batch_errors (log w)" "sent ?w0 = sent w"
    by (simp_all add: logger_def submitted_total_append batch_errors_append)
  note c1 = submit_cases(1) [OF s] and c2 = submit_cases(2) [OF s]
    and c3 = submit_cases(3) [OF s] and c4 = submit_cases(4) [OF s]
  have F1: "load_loop cfg env tr bs (i # rest) ts fb bn w =
            load_loop cfg env tr bs rest ts1 fb1 (bn + 1) w2"
    unfolding load_loop_step [OF s] ts1_def fb1_def w2_def by simp
  have st2: "submitted_total (log w2) = submitted_total (log w1)"
    by (simp add: w2_def logger_def submitted_total_append)
  have be2: "batch_errors (log w2) = batch_errors (log w1) + (if res = Inr True then 0 else 1)"
    by (simp add: w2_def logger_def batch_errors_append)
  have s2: "sent w2 = sent w1" by (simp add: w2_def logger_def)
  have F2: "ts1 = ts + (submitted_total (log w2) - submitted_total (log w))"
    using c1 l0 st2 by (auto simp: ts1_def)
  have F3: "ts \<le> ts1" "ts1 \<le> ts + int (length ?b)" by (simp_all add: ts1_def)
  have F4: "fb1 = fb + (batch_errors (log w2) - batch_errors (log w))"
    using c2 l0 be2 by (simp add: fb1_def)
  have F5: "fb \<le> fb1" "fb1 \<le> fb + 1" by (simp_all add: fb1_def)
  have F6: "(length ?b \<le> 100 \<and> (\<exists>n\<ge>1. sent w2 = sent w @ replicate n (PostHome ?b)))
            \<or> (length ?b > 100 \<and> sent w2 = sent w \<and> fb1 = fb + 1)"
  proof (cases "length ?b > 100")
    case True
    with c3 have "res = Inl ValueError" "w1 = ?w0" by simp_all
    with True l0 s2 show ?thesis by (simp add: fb1_def)
  next
    case False
    then have le: "length ?b \<le> 100" by simp
    from c4 [OF le] l0 s2 le show ?thesis by simp
  qed
  have F7: "set (sent w2) = set (sent w) \<union> (if length ?b \<le> 100 then {PostHome ?b} else {})"
  proof (cases "length ?b \<le> 100")
    case True
    with F6 obtain n where "n \<ge> 1" "sent w2 = sent w @ replicate n (PostHome ?b)" by auto
    with True show ?thesis by (cases n) auto
  next
    case False
    with F6 show ?thesis by auto
  qed
  from Cons.IH [of ts1 fb1 "bn + 1" w2] obtain ts' fb' w' where
    G1: "load_loop cfg env tr bs rest ts1 fb1 (bn + 1) w2 =
           (Inr (ts', fb', bn + 1 + int (length rest)), w')"
    and G2: "ts' = ts1 + (submitted_total (log w') - submitted_total (log w2))"
    and G3: "ts1 \<le> ts'"
    and G4: "ts' \<le> ts1 + sum_list (map (\<lambda>i. int (length (slice tr i (i + bs)))) rest)"
    and G5: "fb' = fb1 + (batch_errors (log w') - batch_errors (log w2))"
    and G6: "fb1 \<le> fb'"
    and G7: "fb' \<le> fb1 + int (length rest)"
    and G8: "set (sent w2) \<subseteq> set (sent w')"
    and G9: "\<forall>r\<in>set (sent w'). r \<in> set (sent w2) \<or>
           (\<exists>i\<in>set rest. r = PostHome (slice tr i (i + bs)) \<and> length (slice tr i (i + bs)) \<le> 100)"
    and G10: "\<forall>i\<in>set rest. length (slice tr i (i + bs)) \<le> 100 \<longrightarrow>
           PostHome (slice tr i (i + bs)) \<in> set (sent w')"
    and G11: "(\<forall>i\<in>set rest. length (slice tr i (i + bs)) > 100) \<longrightarrow>
           sent w' = sent w2 \<and> fb' = fb1 + int (length rest)"
    by blast
  have H1: "load_loop cfg env tr bs (i # rest) ts fb bn w =
              (Inr (ts', fb', bn + int (length (i # rest))), w')"
    using F1 G1 by simp
  have H2: "ts' = ts + (submitted_total (log w') - submitted_total (log w))"
    using F2 G2 by simp
  have H3: "ts \<le> ts'" using F3 G3 by simp
  have H4: "ts' \<le> ts + sum_list (map (\<lambda>i. int (length (slice tr i (i + bs)))) (i # rest))"
    using F3 G4 by simp
  have H5: "fb' = fb + (batch_errors (log w') - batch_errors (log w))"
    using F4 G5 by simp
  have H6: "fb \<le> fb'" using F5 G6 by simp
  have H7: "fb' \<le> fb + int (length (i # rest))" using F5 G7 by simp
  have H8: "set (sent w) \<subseteq> set (sent w')" using F7 G8 by auto
  have H9: "\<forall>r\<in>set (sent w'). r \<in> set (sent w) \<or>
           (\<exists>j\<in>set (i # rest). r = PostHome (slice tr j (j + bs))
                \<and> length (slice tr j (j + bs)) \<le> 100)"
  proof
    fix r assume "r \<in> set (sent w')"
    with G9 consider "r \<in> set (sent w2)"
      | j where "j \<in> set rest" "r = PostHome (slice tr j (j + bs))"
          "length (slice tr j (j + bs)) \<le> 100" by blast
    then show "r \<in> set (sent w) \<or>
           (\<exists>j\<in>set (i # rest). r = PostHome (slice tr j (j + bs))
                \<and> length (slice tr j (j + bs)) \<le> 100)"
    proof cases
      case 1
      with F7 have "r \<in> set (sent w) \<or> (r = PostHome ?b \<and> length ?b \<le> 100)"
        by (auto split: if_splits)
      then show ?thesis by auto
    next
      case 2
      then show ?thesis by auto
    qed
  qed
  have H10: "\<forall>j\<in>set (i # rest). length (slice tr j (j + bs)) \<le> 100 \<longrightarrow>
           PostHome (slice tr j (j + bs)) \<in> set (sent w')"
  proof (intro ballI impI)
    fix j assume j: "j \<in> set (i # rest)" and le: "length (slice tr j (j + bs)) \<le> 100"
    show "PostHome (slice tr j (j + bs)) \<in> set (sent w')"
    proof (cases "j = i")
      case True
      with le F7 have "PostHome (slice tr j (j + bs)) \<in> set (sent w2)" by simp
      with G8 show ?thesis by blast
    next
      case False
      with j have "j \<in> set rest" by simp
      with G10 le show ?thesis by blast
    qed
  qed
  have H11: "(\<forall>j\<in>set (i # rest). length (slice tr j (j + bs)) > 100) \<longrightarrow>
           sent w' = sent w \<and> fb' = fb + int (length (i # rest))"
  proof
    assume big: "\<forall>j\<in>set (i # rest). length (slice tr j (j + bs)) > 100"
    then have "length ?b > 100" by simp
    with F6 have a: "sent w2 = sent w" "fb1 = fb + 1" by simp_all
    from big have "\<forall>j\<in>set rest. length (slice tr j (j + bs)) > 100" by simp
    with G11 have "sent w' = sent w2" "fb' = fb1 + int (length rest)" by simp_all
    with a show "sent w' = sent w \<and> fb' = fb + int (length (i # rest))" by simp
  qed
  from H1 H2 H3 H4 H5 H6 H7 H8 H9 H10 H11 show ?case by blast
qed

lemma py_range_pos:
  "0 < bs \<Longrightarrow>
   py_range (int n) bs = Inr (map (\<lambda>k. int k * bs) [0..<(n + nat bs - 1) div nat bs])"
proof -
  assume pos: "0 < bs"
  have "nat ((int n + bs - 1) div bs) = nat (int n + bs - 1) div nat bs"
    using pos by (simp add: nat_div_distrib)
  moreover have "nat (int n + bs - 1) = n + nat bs - 1" using pos by simp
  ultimately show ?thesis using pos by (simp add: py_range_def)
qed

lemma slice_index:
  "0 < bs \<Longrightarrow> slice xs (int k * bs) (int k * bs + bs) = take (nat bs) (drop (k * nat bs) xs)"
  by (simp add: slice_def nat_mult_distrib)

lemma batches_pos:
  "0 < bs \<Longrightarrow>
   batches xs bs = map (\<lambda>k. take (nat bs) (drop (k * nat bs) xs))
                     [0..<(length xs + nat bs - 1) div nat bs]"
  by (simp add: batches_def py_range_pos slice_index)

lemma concat_chunks:
  "concat (map (\<lambda>k. take b (drop (k * b) xs)) [0..<m]) = take (m * b) xs"
proof (induction m)
  case 0
  show ?case by simp
next
  case (Suc m)
  have "take (m * b) xs @ take b (drop (m * b) xs) = take (m * b + b) xs"
    by (simp add: take_add)
  with Suc show ?case by (simp add: add.commute)
qed

lemma chunk_start:
  fixes b :: nat
  assumes b: "0 < b" and k: "k < (n + b - 1) div b"
  shows "k * b < n"
proof -
  from k have "Suc k \<le> (n + b - 1) div b" by simp
  then have "Suc k * b \<le> ((n + b - 1) div b) * b" by (rule mult_le_mono1)
  also have "\<dots> \<le> n + b - 1" by (rule div_times_less_eq_dividend)
  finally have "k * b + b \<le> n + b - 1" by simp
  with b show ?thesis by linarith
qed

lemma chunks_cover:
  fixes b :: nat
  assumes b: "0 < b"
  shows "n \<le> ((n + b - 1) div b) * b"
proof -
  have "(n + b - 1) div b * b + (n + b - 1) mod b = n + b - 1" by simp
  moreover have "(n + b - 1) mod b < b" using b by simp
  ultimately show ?thesis using b by linarith
qed

lemma concat_batches: "0 < bs \<Longrightarrow> concat (batches xs bs) = xs"
  using chunks_cover [of "nat bs" "length xs"]
  by (simp add: batches_pos concat_chunks)

lemma batches_nth:
  assumes pos: "0 < bs" and k: "k < length (batches xs bs)"
  shows "batches xs bs ! k = take (nat bs) (drop (k * nat bs) xs)"
    and "batches xs bs ! k \<noteq> []"
    and "length (batches xs bs ! k) \<le> nat bs"
    and "k + 1 < length (batches xs bs) \<Longrightarrow> length (batches xs bs ! k) = nat bs"
proof -
  from k pos have k': "k < (length xs + nat bs - 1) div nat bs" by (simp add: batches_pos)
  then show nth: "batches xs bs ! k = take (nat bs) (drop (k * nat bs) xs)"
    using pos by (simp add: batches_pos)
  from pos have b: "0 < nat bs" by simp
  from chunk_start [OF b k'] have "k * nat bs < length xs" .
  then show "batches xs bs ! k \<noteq> []" using b unfolding nth by simp
  show "length (batches xs bs ! k) \<le> nat bs" unfolding nth by simp
  show "length (batches xs bs ! k) = nat bs" if "k + 1 < length (batches xs bs)"
  proof -
    from that pos have "k + 1 < (length xs + nat bs - 1) div nat bs" by (simp add: batches_pos)
    from chunk_start [OF b this] have "k * nat bs + nat bs < length xs" by simp
    then show ?thesis unfolding nth by simp
  qed
qed

lemma load_animals_inv:
  assumes r: "py_range (int (length tr)) (batch_size p) = Inr idx"
  shows "\<exists>ts fb w'.
     load_animals cfg env p tr w =
       (Inr (fb = 0),
        p\<lparr>stats := (stats p)\<lparr>total_animals_submitted := ts,
                              total_batches_submitted := int (length idx) - fb,
                              failed_submissions := fb\<rparr>\<rparr>, w')
     \<and> ts = submitted_total (log w') - submitted_total (log w)
     \<and> 0 \<le> ts
     \<and> ts \<le> sum_list (map (\<lambda>b. int (length b)) (batches tr (batch_size p)))
     \<and> fb = batch_errors (log w') - batch_errors (log w)
     \<and> 0 \<le> fb
     \<and> fb \<le> int (length idx)
     \<and> length (batches tr (batch_size p)) = length idx
     \<and> set (sent w) \<subseteq> set (sent w')
     \<and> (\<forall>r\<in>set (sent w'). r \<in> set (sent w) \<or>
           (\<exists>b\<in>set (batches tr (batch_size p)). r = PostHome b \<and> length b \<le> 100))
     \<and> (\<forall>b\<in>set (batches tr (batch_size p)). length b \<le> 100 \<longrightarrow> PostHome b \<in> set (sent w'))
     \<and> ((\<forall>b\<in>set (batches tr (batch_size p)). length b > 100) \<longrightarrow>
           sent w' = sent w \<and> fb = int (length idx))"
proof -
  let ?bs = "batch_size p"
  have bt: "batches tr ?bs = map (\<lambda>i. slice tr i (i + ?bs)) idx"
    by (simp add: batches_def r)
  from load_loop_inv [of cfg env tr ?bs idx 0 0 0 w] obtain ts fb w' where
    G1: "load_loop cfg env tr ?bs idx 0 0 0 w = (Inr (ts, fb, int (length idx)), w')"
    and G2: "ts = submitted_total (log w') - submitted_total (log w)"
    and G3: "0 \<le> ts"
    and G4: "ts \<le> sum_list (map (\<lambda>i. int (length (slice tr i (i + ?bs)))) idx)"
    and G5: "fb = batch_errors (log w') - batch_errors (log w)"
    and G6: "0 \<le> fb"
    and G7: "fb \<le> int (length idx)"
    and G8: "set (sent w) \<subseteq> set (sent w')"
    and G9: "\<forall>r\<in>set (sent w'). r \<in> set (sent w) \<or>
           (\<exists>i\<in>set idx. r = PostHome (slice tr i (i + ?bs)) \<and> length (slice tr i (i + ?bs)) \<le> 100)"
    and G10: "\<forall>i\<in>set idx. length (slice tr i (i + ?bs)) \<le> 100 \<longrightarrow>
           PostHome (slice tr i (i + ?bs)) \<in> set (sent w')"
    and G11: "(\<forall>i\<in>set idx. length (slice tr i (i + ?bs)) > 100) \<longrightarrow>
           sent w' = sent w \<and> fb = 0 + int (length idx)"
    by auto
  have H1: "load_animals cfg env p tr w =
       (Inr (fb = 0),
        p\<lparr>stats := (stats p)\<lparr>total_animals_submitted := ts,
                              total_batches_submitted := int (length idx) - fb,
                              failed_submissions := fb\<rparr>\<rparr>, w')"
    by (simp add: load_animals_def r G1)
  have H4: "ts \<le> sum_list (map (\<lambda>b. int (length b)) (batches tr ?bs))"
    using G4 by (simp add: bt comp_def)
  have H8: "length (batches tr ?bs) = length idx" by (simp add: bt)
  have H9: "\<forall>r\<in>set (sent w'). r \<in> set (sent w) \<or>
           (\<exists>b\<in>set (batches tr ?bs). r = PostHome b \<and> length b \<le> 100)"
    using G9 by (simp add: bt)
  have H10: "\<forall>b\<in>set (batches tr ?bs). length b \<le> 100 \<longrightarrow> PostHome b \<in> set (sent w')"
    using G10 by (simp add: bt)
  have H11: "(\<forall>b\<in>set (batches tr ?bs). length b > 100) \<longrightarrow>
           sent w' = sent w \<and> fb = int (length idx)"
    using G11 by (simp add: bt)
  from H1 G2 G3 H4 G5 G6 G7 H8 G8 H9 H10 H11 show ?thesis by blast
qed

lemma reject_pairs_attempt:
  "attempt reject_pairs_env (PostHome [a, b]) w =
     (Inl (APIError (Some 400)),
      w\<lparr>sent := sent w @ [PostHome [a, b]], log := log w @ [NonRetryable 400]\<rparr>)"
  by (simp add: attempt_def session_request_def reject_pairs_env_def RETRY_STATUS_CODES_def
      logger_def)

lemma reject_pairs_request:
  "make_request default_config reject_pairs_env (PostHome [a, b]) w =
     (Inl (APIError (Some 400)),
      w\<lparr>sent := sent w @ [PostHome [a, b], PostHome [a, b], PostHome [a, b]],
        log := log w @ [NonRetryable 400, NonRetryable 400, NonRetryable 400]\<rparr>)"
  unfolding make_request_def
  apply (subst make_request_from.simps)
  apply (subst make_request_from.simps)
  apply (subst make_request_from.simps)
  apply (simp add: reject_pairs_attempt default_config_def)
  done

lemma reject_pairs_single:
  "make_request default_config reject_pairs_env (PostHome [a]) w =
     (Inr \<lparr>status_code = 200, body = InvalidBody\<rparr>, w\<lparr>sent := sent w @ [PostHome [a]]\<rparr>)"
  by (rule make_request_ok) (simp_all add: reject_pairs_env_def RETRY_STATUS_CODES_def)



lemma unexpected_get_all:
  "get_all_animals default_config unexpected_detail_env w =
     Some (Inr example_summaries, w\<lparr>sent := sent w @ [GetList 1 20, GetList 2 20]\<rparr>)"
proof -
  have srv: "\<forall>k\<in>{1..2}. \<forall>h.
      unexpected_detail_env h (GetList k (DEFAULT_PAGE_SIZE default_config)) =
            Response \<lparr>status_code = 200, body = ListBody k 2 (example_pages k)\<rparr>"
    by (simp add: unexpected_detail_env_def example_env_def)
  from get_all_animals_loop_pages [OF srv, of 1 "[]" w] show ?thesis
    by (simp add: get_all_animals_def upto_1_2 default_config_def example_summaries_def)
qed


lemma unexpected_detail_fetch:
  "get_animal_detail default_config unexpected_detail_env i w =
     (Inl OtherError, w\<lparr>sent := sent w @ [GetDetail i]\<rparr>)"
proof -
  have "make_request default_config unexpected_detail_env (GetDetail i) w =
     (Inr \<lparr>status_code = 200, body = UnexpectedBody\<rparr>, w\<lparr>sent := sent w @ [GetDetail i]\<rparr>)"
    by (rule make_request_ok) (simp_all add: unexpected_detail_env_def RETRY_STATUS_CODES_def)
  then show ?thesis by (simp add: get_animal_detail_def)
qed


lemma unexpected_details_loop:
  "details_loop default_config unexpected_detail_env example_summaries [] 0 w =
     (Inl OtherError, w\<lparr>sent := sent w @ [GetDetail 1]\<rparr>)"
  by (simp add: example_summaries_def example_pages_def unexpected_detail_fetch)

lemma example_summaries_facts:
  "example_summaries \<noteq> []" "length example_summaries = 5"
  by (simp_all add: example_summaries_def example_pages_def)





lemma load_loop_submit_each:
  "submit_each cfg env (map (\<lambda>i. slice tr i (i + bs)) idx) (bn + 1) w = (rs, w') \<Longrightarrow>
   load_loop cfg env tr bs idx ts fb bn w =
     (Inr (ts + submitted_records (map (\<lambda>i. slice tr i (i + bs)) idx) rs,
           fb + int (length (filter (\<lambda>r. \<not> succeeded r) rs)),
           bn + int (length idx)), w')"
proof (induction idx arbitrary: ts fb bn w rs w')
  case Nil
  then show ?case by (simp add: submitted_records_def)
next
  case (Cons i rest)
  let ?b = "slice tr i (i + bs)"
  let ?w0 = "logger (ProcessingBatch (bn + 1) (int (length ?b))) w"
  obtain r w1 where s: "submit_animals_batch cfg env ?b ?w0 = (r, w1)"
    by (cases "submit_animals_batch cfg env ?b ?w0")
  let ?w2 = "logger (if succeeded r then BatchOk (bn + 1) else BatchError (bn + 1)) w1"
  obtain rs' w3 where e: "submit_each cfg env (map (\<lambda>i. slice tr i (i + bs)) rest)
      (bn + 1 + 1) ?w2 = (rs', w3)"
    by (cases "submit_each cfg env (map (\<lambda>i. slice tr i (i + bs)) rest) (bn + 1 + 1) ?w2")
  from Cons.prems s e have rs: "rs = r # rs'" and w': "w' = w3" by simp_all
  show ?case
  proof (cases "succeeded r")
    case True
    then have r: "r = Inr True" by (simp add: succeeded_def)
    from e True have e': "submit_each cfg env (map (\<lambda>i. slice tr i (i + bs)) rest)
      (bn + 1 + 1) (logger (BatchOk (bn + 1)) w1) = (rs', w3)" by simp
    from Cons.IH [OF e', of "ts + int (length ?b)" fb]
    show ?thesis
      unfolding load_loop_step [OF s] rs w' using r True
      by (simp add: submitted_records_def)
  next
    case False
    then have r: "r \<noteq> Inr True" by (simp add: succeeded_def)
    from e False have e': "submit_each cfg env (map (\<lambda>i. slice tr i (i + bs)) rest)
      (bn + 1 + 1) (logger (BatchError (bn + 1)) w1) = (rs', w3)" by simp
    from Cons.IH [OF e', of ts "fb + 1"]
    show ?thesis
      unfolding load_loop_step [OF s] rs w' using r False
      by (simp add: submitted_records_def)
  qed
qed

lemma submit_each_length:
  "submit_each cfg env bs k w = (rs, w') \<Longrightarrow> length rs = length bs"
proof (induction bs arbitrary: k w rs w')
  case Nil
  then show ?case by simp
next
  case (Cons b bs)
  then show ?case by (auto split: prod.splits)
qed

lemma filter_succeeded_count:
  "int (length (filter succeeded rs)) = int (length rs) - int (length (filter (\<lambda>r. \<not> succeeded r) rs))"
  using sum_length_filter_compl [of succeeded rs] by simp

lemma no_failure_iff:
  "(filter (\<lambda>r. \<not> succeeded r) rs = []) = list_all succeeded rs"
  by (induction rs) auto

lemma load_animals_submit_each:
  assumes nz: "batch_size p \<noteq> 0"
    and se: "submit_each cfg env (batches tr (batch_size p)) 1 w = (rs, w')"
  shows "load_animals cfg env p tr w =
     (Inr (list_all succeeded rs),
      p\<lparr>stats := (stats p)\<lparr>
           total_animals_submitted := submitted_records (batches tr (batch_size p)) rs,
           total_batches_submitted := int (length (filter succeeded rs)),
           failed_submissions := int (length (filter (\<lambda>r. \<not> succeeded r) rs))\<rparr>\<rparr>,
      w')"
proof -
  let ?bs = "batch_size p"
  have "\<exists>idx. py_range (int (length tr)) ?bs = Inr idx"
    using nz by (simp add: py_range_def)
  then obtain idx where r: "py_range (int (length tr)) ?bs = Inr idx" by blast
  have bt: "batches tr ?bs = map (\<lambda>i. slice tr i (i + ?bs)) idx"
    by (simp add: batches_def r)
  from se have se': "submit_each cfg env (map (\<lambda>i. slice tr i (i + ?bs)) idx) (0 + 1) w = (rs, w')"
    by (simp add: bt)
  from submit_each_length [OF se] have len: "length rs = length idx" by (simp add: bt)
  note ll = load_loop_submit_each [OF se', of 0 0]
  show ?thesis
    by (simp add: load_animals_def r ll no_failure_iff filter_succeeded_count len bt)
qed

lemma submit_each_outcomes:
  "submit_each cfg env bs k w = (rs, w') \<Longrightarrow>
   list_all2 (\<lambda>b r. (100 < length b \<longrightarrow> r = Inl ValueError)
                  \<and> (succeeded r \<longrightarrow> length b \<le> 100)
                  \<and> (r = Inr True \<or> r = Inl ValueError \<or> (\<exists>s. r = Inl (APIError s)))) bs rs
   \<and> (\<exists>ns. list_all2 (\<lambda>b n. if 100 < length b then n = 0 else 1 \<le> n) bs ns
          \<and> sent w' = sent w @ concat (map2 (\<lambda>b n. replicate n (PostHome b)) bs ns))"
proof (induction bs arbitrary: k w rs w')
  case Nil
  then show ?case by simp
next
  case (Cons b bs)
  let ?w0 = "logger (ProcessingBatch k (int (length b))) w"
  obtain r w1 where s: "submit_animals_batch cfg env b ?w0 = (r, w1)"
    by (cases "submit_animals_batch cfg env b ?w0")
  let ?w2 = "logger (if succeeded r then BatchOk k else BatchError k) w1"
  obtain rs' w3 where e: "submit_each cfg env bs (k + 1) ?w2 = (rs', w3)"
    by (cases "submit_each cfg env bs (k + 1) ?w2")
  from Cons.prems s e have rs: "rs = r # rs'" and w': "w' = w3" by simp_all
  note c1 = submit_cases(1) [OF s] and c3 = submit_cases(3) [OF s]
    and c4 = submit_cases(4) [OF s]
  have s0: "sent ?w0 = sent w" by (simp add: logger_def)
  have s2: "sent ?w2 = sent w1" by (simp add: logger_def)
  have kinds: "r = Inr True \<or> r = Inl ValueError \<or> (\<exists>s. r = Inl (APIError s))"
    using c1 by blast
  have big: "100 < length b \<longrightarrow> r = Inl ValueError" using c3 by blast
  have ok: "succeeded r \<longrightarrow> length b \<le> 100" using c1 by (auto simp: succeeded_def)
  obtain n where n: "if 100 < length b then n = 0 else 1 \<le> n"
    and sn: "sent w1 = sent w @ replicate n (PostHome b)"
  proof (cases "100 < length b")
    case True
    with c3 have "w1 = ?w0" by simp
    with s0 have "sent w1 = sent w @ replicate 0 (PostHome b)" by simp
    with True that [of 0] show ?thesis by simp
  next
    case False
    then have "length b \<le> 100" by simp
    from c4 [OF this] s0 obtain m where "1 \<le> m" "sent w1 = sent w @ replicate m (PostHome b)"
      by auto
    with False that [of m] show ?thesis by simp
  qed
  from Cons.IH [OF e] obtain ns where
    a: "list_all2 (\<lambda>b r. (100 < length b \<longrightarrow> r = Inl ValueError)
                  \<and> (succeeded r \<longrightarrow> length b \<le> 100)
                  \<and> (r = Inr True \<or> r = Inl ValueError \<or> (\<exists>s. r = Inl (APIError s)))) bs rs'"
    and b: "list_all2 (\<lambda>b n. if 100 < length b then n = 0 else 1 \<le> n) bs ns"
    and c: "sent w3 = sent ?w2 @ concat (map2 (\<lambda>b n. replicate n (PostHome b)) bs ns)"
    by blast
  have A: "list_all2 (\<lambda>b r. (100 < length b \<longrightarrow> r = Inl ValueError)
                  \<and> (succeeded r \<longrightarrow> length b \<le> 100)
                  \<and> (r = Inr True \<or> r = Inl ValueError \<or> (\<exists>s. r = Inl (APIError s))))
             (b # bs) rs"
    unfolding rs using a kinds big ok by simp
  have B: "list_all2 (\<lambda>b n. if 100 < length b then n = 0 else 1 \<le> n) (b # bs) (n # ns)"
    using b n by simp
  have C: "sent w' = sent w @ concat (map2 (\<lambda>b n. replicate n (PostHome b)) (b # bs) (n # ns))"
    unfolding w' using c s2 sn by simp
  from A B C show ?case by blast
qed

lemma load_animals_spec:
  assumes nz: "batch_size p \<noteq> 0"
  shows "load_animals cfg env p tr w =
     (Inr (list_all succeeded (fst (submit_each cfg env (batches tr (batch_size p)) 1 w))),
      p\<lparr>stats := (stats p)\<lparr>
           total_animals_submitted :=
             submitted_records (batches tr (batch_size p))
               (fst (submit_each cfg env (batches tr (batch_size p)) 1 w)),
           total_batches_submitted :=
             int (length (filter succeeded
                    (fst (submit_each cfg env (batches tr (batch_size p)) 1 w)))),
           failed_submissions :=
             int (length (filter (\<lambda>r. \<not> succeeded r)
                    (fst (submit_each cfg env (batches tr (batch_size p)) 1 w))))\<rparr>\<rparr>,
      snd (submit_each cfg env (batches tr (batch_size p)) 1 w))"
proof -
  obtain rs w' where se: "submit_each cfg env (batches tr (batch_size p)) 1 w = (rs, w')"
    by (cases "submit_each cfg env (batches tr (batch_size p)) 1 w")
  from load_animals_submit_each [OF nz se] show ?thesis by (simp add: se)
qed

lemma load_animals_batch_errors:
  fixes p :: processor
  assumes nz: "batch_size p \<noteq> 0"
  shows "batch_errors (log (snd (submit_each cfg env (batches tr (batch_size p)) 1 w))) =
         batch_errors (log w)
         + int (length (filter (\<lambda>r. \<not> succeeded r)
                  (fst (submit_each cfg env (batches tr (batch_size p)) 1 w))))"
proof -
  have "\<exists>idx. py_range (int (length tr)) (batch_size p) = Inr idx"
    using nz by (simp add: py_range_def)
  then obtain idx where r: "py_range (int (length tr)) (batch_size p) = Inr idx" by blast
  from load_animals_inv [OF r, of cfg env w] obtain ts fb w'' where
    G1: "load_animals cfg env p tr w =
       (Inr (fb = 0),
        p\<lparr>stats := (stats p)\<lparr>total_animals_submitted := ts,
                              total_batches_submitted := int (length idx) - fb,
                              failed_submissions := fb\<rparr>\<rparr>, w'')"
    and G5: "fb = batch_errors (log w'') - batch_errors (log w)"
    by blast
  note S = load_animals_spec [OF nz, of cfg env tr w]
  from G1 S have "w'' = snd (submit_each cfg env (batches tr (batch_size p)) 1 w)" by simp
  moreover from G1 have "failed_submissions (stats (fst (snd (load_animals cfg env p tr w)))) = fb"
    by simp
  then have "fb = int (length (filter (\<lambda>r. \<not> succeeded r)
                  (fst (submit_each cfg env (batches tr (batch_size p)) 1 w))))"
    unfolding S by simp
  ultimately show ?thesis using G5 by simp
qed


lemma invalid_get_all:
  "get_all_animals default_config invalid_detail_env w =
     Some (Inr example_summaries, w\<lparr>sent := sent w @ [GetList 1 20, GetList 2 20]\<rparr>)"
proof -
  have srv: "\<forall>k\<in>{1..2}. \<forall>h.
      invalid_detail_env h (GetList k (DEFAULT_PAGE_SIZE default_config)) =
            Response \<lparr>status_code = 200, body = ListBody k 2 (example_pages k)\<rparr>"
    by (simp add: invalid_detail_env_def example_env_def)
  from get_all_animals_loop_pages [OF srv, of 1 "[]" w] show ?thesis
    by (simp add: get_all_animals_def upto_1_2 default_config_def example_summaries_def)
qed


lemma invalid_detail_fetch:
  "get_animal_detail default_config invalid_detail_env i w =
     (Inl (APIError None), w\<lparr>sent := sent w @ [GetDetail i]\<rparr>)"
proof -
  have "make_request default_config invalid_detail_env (GetDetail i) w =
     (Inr \<lparr>status_code = 200, body = InvalidBody\<rparr>, w\<lparr>sent := sent w @ [GetDetail i]\<rparr>)"
    by (rule make_request_ok) (simp_all add: invalid_detail_env_def RETRY_STATUS_CODES_def)
  then show ?thesis by (simp add: get_animal_detail_def)
qed


lemma invalid_details_loop:
  "details_loop default_config invalid_detail_env example_summaries [] 0 w =
     (Inr ([], 5),
      w\<lparr>sent := sent w @ [GetDetail 1, GetDetail 2, GetDetail 3, GetDetail 4, GetDetail 5]\<rparr>)"
  by (simp add: example_summaries_def example_pages_def invalid_detail_fetch)



section \<open>Claims\<close>

text \<open>
  C6: \<open>transform_friends\<close> maps absent, empty and blank input to the empty list, and maps
  every string to its comma-separated pieces, each trimmed, the empty ones dropped, in
  the original order; \<open>"a, b,,c"\<close> gives \<open>["a", "b", "c"]\<close>.
\<close>

theorem transform_friends_spec:
  "transform_friends None = []
   \<and> transform_friends (Some []) = []
   \<and> (list_all isspace s \<longrightarrow> transform_friends (Some s) = [])
   \<and> transform_friends (Some s) =
       filter (\<lambda>p. p \<noteq> []) (map strip (split_on (CHR '','') s))
   \<and> join (CHR '','') (split_on (CHR '','') s) = s
   \<and> transform_friends (Some ''a, b,,c'') = [''a'', ''b'', ''c'']"
proof -
  have none: "transform_friends None = []"
    by (simp add: transform_friends_def)
  have empty: "transform_friends (Some []) = []"
    by (simp add: transform_friends_def)
  have blank: "list_all isspace s \<longrightarrow> transform_friends (Some s) = []"
    by (simp add: transform_friends_def strip_empty_iff)
  have ex: "transform_friends (Some ''a, b,,c'') = [''a'', ''b'', ''c'']"
    by (simp add: transform_friends_formula split_on_def strip_def isspace_def)
  from none empty blank ex transform_friends_formula [of s] join_split_on [of "CHR '',''" s]
  show ?thesis by blast
qed

theorem transform_friends_spec_witness:
  "list_all isspace '' ''
   \<and> transform_friends (Some '' '') = []
   \<and> transform_friends (Some ''x , y'') = [''x'', ''y'']"
proof -
  have b: "list_all isspace '' ''" by (simp add: isspace_def)
  have "transform_friends (Some '' '') = []"
    using transform_friends_spec [of "'' ''"] b by blast
  moreover have "transform_friends (Some ''x , y'') = [''x'', ''y'']"
    using transform_friends_spec [of "''x , y''"]
    by (simp add: split_on_def strip_def isspace_def)
  ultimately show ?thesis using b by simp
qed

text \<open>
  C1: \<open>transform_animal\<close> is claimed to normalise a \<open>datetime\<close> \<open>born_at\<close> to UTC as
  \<open>transform_born_at\<close> does. On a naive value it emits the text without an offset, and on
  a value at +05:00 it emits the local text with the offset, where \<open>transform_born_at\<close>
  gives the UTC text in both cases.
\<close>

theorem transform_animal_datetime_not_utc:
  "transform_animal parse_rejecting
     \<lparr>id_d = 1, name_d = ''cat'', friends_d = FriendsStr [],
      born_at_d = BornDatetime \<lparr>year = 2020, month = 1, day = 1, hour = 0, minute = 0,
        second = 0, microsecond = 0, tzinfo = None\<rparr>, extra_d = []\<rparr>
   = Inr \<lparr>id_t = 1, name_t = ''cat'', friends_t = [],
          born_at_t = Some ''2020-01-01T00:00:00'', extra_t = []\<rparr>
   \<and> transform_born_at parse_rejecting
       (BornDatetime \<lparr>year = 2020, month = 1, day = 1, hour = 0, minute = 0,
          second = 0, microsecond = 0, tzinfo = None\<rparr>)
     = Inr (Some ''2020-01-01T00:00:00+00:00'')
   \<and> transform_animal parse_rejecting
     \<lparr>id_d = 2, name_d = ''dog'', friends_d = FriendsStr [],
      born_at_d = BornDatetime \<lparr>year = 2020, month = 1, day = 1, hour = 2, minute = 30,
        second = 0, microsecond = 0, tzinfo = Some 18000000000\<rparr>, extra_d = []\<rparr>
   = Inr \<lparr>id_t = 2, name_t = ''dog'', friends_t = [],
          born_at_t = Some ''2020-01-01T02:30:00+05:00'', extra_t = []\<rparr>
   \<and> transform_born_at parse_rejecting
       (BornDatetime \<lparr>year = 2020, month = 1, day = 1, hour = 2, minute = 30,
        second = 0, microsecond = 0, tzinfo = Some 18000000000\<rparr>)
     = Inr (Some ''2019-12-31T21:30:00+00:00'')"
proof -
  have a: "transform_animal parse_rejecting
     \<lparr>id_d = 1, name_d = ''cat'', friends_d = FriendsStr [],
      born_at_d = BornDatetime \<lparr>year = 2020, month = 1, day = 1, hour = 0, minute = 0,
        second = 0, microsecond = 0, tzinfo = None\<rparr>, extra_d = []\<rparr>
   = Inr \<lparr>id_t = 1, name_t = ''cat'', friends_t = [],
          born_at_t = Some ''2020-01-01T00:00:00'', extra_t = []\<rparr>"
    by (simp add: transform_animal_def transform_friends_def dt_eval)
  have b: "transform_born_at parse_rejecting
       (BornDatetime \<lparr>year = 2020, month = 1, day = 1, hour = 0, minute = 0,
          second = 0, microsecond = 0, tzinfo = None\<rparr>)
     = Inr (Some ''2020-01-01T00:00:00+00:00'')"
    by (simp add: transform_born_at_def dt_eval)
  have c: "transform_animal parse_rejecting
     \<lparr>id_d = 2, name_d = ''dog'', friends_d = FriendsStr [],
      born_at_d = BornDatetime \<lparr>year = 2020, month = 1, day = 1, hour = 2, minute = 30,
        second = 0, microsecond = 0, tzinfo = Some 18000000000\<rparr>, extra_d = []\<rparr>
   = Inr \<lparr>id_t = 2, name_t = ''dog'', friends_t = [],
          born_at_t = Some ''2020-01-01T02:30:00+05:00'', extra_t = []\<rparr>"
    by (simp add: transform_animal_def transform_friends_def dt_eval)
  have d: "transform_born_at parse_rejecting
       (BornDatetime \<lparr>year = 2020, month = 1, day = 1, hour = 2, minute = 30,
        second = 0, microsecond = 0, tzinfo = Some 18000000000\<rparr>)
     = Inr (Some ''2019-12-31T21:30:00+00:00'')"
    by (simp add: transform_born_at_def dt_eval)
  from a b c d show ?thesis by blast
qed

text \<open>
  C5, as stated: every transformed record is free of blank friends, also for a list
  input. A list holding one space passes the validator (which drops only empty items) and
  \<open>transform_animal\<close> unchanged.
\<close>

theorem transform_animal_blank_friend_counterexample:
  "transform_animal parse_rejecting (AnimalDetail_init 1 ''cat'' (RawList ['' '']) BornNone [])
     = Inr \<lparr>id_t = 1, name_t = ''cat'', friends_t = ['' ''], born_at_t = None, extra_t = []\<rparr>
   \<and> list_all isspace '' ''"
  by (simp add: transform_animal_def AnimalDetail_init_def validate_friends_def
      validate_born_at_def transform_born_at_def isspace_def)

text \<open>
  C5, amended: a record built by the \<open>AnimalDetail\<close> constructor and transformed has no
  empty friend; when its friends field is a string, it has no blank friend either; when it
  is a list, the list is passed through as validated.
\<close>

theorem transform_animal_friends_spec:
  "transform_animal parse (AnimalDetail_init i n f b e) = Inr t \<Longrightarrow>
   [] \<notin> set (friends_t t)
   \<and> (\<not> is_list (validate_friends f) \<longrightarrow> (\<forall>x \<in> set (friends_t t). \<not> list_all isspace x))
   \<and> (is_list (validate_friends f) \<longrightarrow> FriendsList (friends_t t) = validate_friends f)"
proof -
  assume tr: "transform_animal parse (AnimalDetail_init i n f b e) = Inr t"
  have fr: "friends_t t = (case validate_friends f of FriendsList l \<Rightarrow> l
                  | FriendsStr s \<Rightarrow> transform_friends (Some s))"
    using transform_animal_friends_t [OF tr] by (simp add: AnimalDetail_init_def)
  show ?thesis
  proof (cases f)
    case RawNone
    then show ?thesis using fr by (simp add: validate_friends_def transform_friends_def)
  next
    case (RawStr s)
    then have "friends_t t = transform_friends (Some s)"
      using fr by (simp add: validate_friends_def)
    then show ?thesis using RawStr transform_friends_no_blank [of _ s]
      by (auto simp: validate_friends_def)
  next
    case (RawList items)
    then show ?thesis using fr by (simp add: validate_friends_def)
  qed
qed

theorem transform_animal_friends_spec_witness:
  "transform_animal parse_rejecting (AnimalDetail_init 1 ''cat'' (RawStr ''a, ,b'') BornNone [])
     = Inr \<lparr>id_t = 1, name_t = ''cat'', friends_t = [''a'', ''b''], born_at_t = None, extra_t = []\<rparr>
   \<and> [] \<notin> set [''a'', ''b'']
   \<and> \<not> is_list (validate_friends (RawStr ''a, ,b''))
   \<and> \<not> list_all isspace ''a'' \<and> \<not> list_all isspace ''b''"
proof -
  have ev: "transform_animal parse_rejecting (AnimalDetail_init 1 ''cat'' (RawStr ''a, ,b'') BornNone [])
     = Inr \<lparr>id_t = 1, name_t = ''cat'', friends_t = [''a'', ''b''], born_at_t = None, extra_t = []\<rparr>"
    by (simp add: transform_animal_def AnimalDetail_init_def validate_friends_def
      validate_born_at_def transform_born_at_def transform_friends_formula split_on_def
      strip_def isspace_def)
  have nl: "\<not> is_list (validate_friends (RawStr ''a, ,b''))"
    by (simp add: validate_friends_def)
  from transform_animal_friends_spec [OF ev] nl ev show ?thesis by simp
qed

text \<open>
  C7: \<open>transform_animals_batch\<close> returns exactly the successfully transformed records,
  in the original order; a failing record (such as one whose \<open>born_at\<close> string the parser
  rejects, which raises a \<open>TransformationError\<close> for the field \<open>born_at\<close>) is dropped and
  logged; the call returns a list for every input, and the number of logged failures is
  the input count minus the output count.
\<close>

theorem transform_animals_batch_spec:
  "transform_animals_batch parse animals =
     concat (map (\<lambda>a. case transform_animal parse a of Inl e \<Rightarrow> [] | Inr t \<Rightarrow> [t]) animals)
   \<and> snd (batch_loop parse animals [] []) =
       map id_d (filter (\<lambda>a. isl (transform_animal parse a)) animals)
   \<and> int (length (snd (batch_loop parse animals [] []))) =
       int (length animals) - int (length (transform_animals_batch parse animals))
   \<and> (born_at_d a = BornStr s \<and> strip s \<noteq> [] \<and> parse s = Inl ValueError \<longrightarrow>
        transform_animal parse a = Inl (TransformationError None (Some ''born_at'')))"
proof -
  have 1: "transform_animals_batch parse animals =
     concat (map (\<lambda>a. case transform_animal parse a of Inl e \<Rightarrow> [] | Inr t \<Rightarrow> [t]) animals)"
    by (simp add: transform_animals_batch_def batch_loop_eq)
  have 2: "snd (batch_loop parse animals [] []) =
       map id_d (filter (\<lambda>a. isl (transform_animal parse a)) animals)"
    by (simp add: batch_loop_eq)
  have 3: "int (length (snd (batch_loop parse animals [] []))) =
       int (length animals) - int (length (transform_animals_batch parse animals))"
    using successes_failures_length [of parse animals] unfolding 1 2 by simp
  from 1 2 3 unparseable_born_at [of a s parse] show ?thesis by blast
qed

theorem transform_animals_batch_spec_witness:
  "map id_t (transform_animals_batch parse_iso_day example_details) = [1, 2, 4, 5]
   \<and> snd (batch_loop parse_iso_day example_details [] []) = [3]
   \<and> length example_details = 5
   \<and> born_at_d (example_detail 3 ''not-a-date'') = BornStr ''not-a-date''
   \<and> strip ''not-a-date'' \<noteq> [] \<and> parse_iso_day ''not-a-date'' = Inl ValueError
   \<and> transform_animal parse_iso_day (example_detail 3 ''not-a-date'')
       = Inl (TransformationError None (Some ''born_at''))"
proof -
  note spec = transform_animals_batch_spec
    [of parse_iso_day example_details "example_detail 3 ''not-a-date''" "''not-a-date''"]
  from spec ex_bad have bad: "transform_animal parse_iso_day (example_detail 3 ''not-a-date'')
       = Inl (TransformationError None (Some ''born_at''))" by blast
  have id3: "id_d (example_detail 3 ''not-a-date'') = 3"
    by (simp add: example_detail_def AnimalDetail_init_def)
  from spec have "map id_t (transform_animals_batch parse_iso_day example_details) = [1, 2, 4, 5]"
    by (simp add: example_details_def ex_ok ex_none bad)
  moreover from spec have "snd (batch_loop parse_iso_day example_details [] []) = [3]"
    by (simp add: example_details_def ex_ok ex_none bad id3)
  moreover have "length example_details = 5" by (simp add: example_details_def)
  ultimately show ?thesis using ex_bad bad by blast
qed

text \<open>
  C4: a non-retryable status is claimed to fail at once, with one request. The retry
  decorator retries every \<open>APIError\<close>, and the error raised for a 404 is an \<open>APIError\<close>:
  with the default of three attempts a server answering 404 receives three requests, and
  the log line for a non-retryable error is written three times.
\<close>

theorem make_request_retries_404:
  "make_request default_config always_404 (GetDetail 7) \<lparr>sent = [], log = []\<rparr> =
     (Inl (APIError (Some 404)),
      \<lparr>sent = [GetDetail 7, GetDetail 7, GetDetail 7],
       log = [NonRetryable 404, NonRetryable 404, NonRetryable 404]\<rparr>)"
  unfolding make_request_def
  apply (subst make_request_from.simps)
  apply (subst make_request_from.simps)
  apply (subst make_request_from.simps)
  apply (simp add: attempt_404 default_config_def)
  done

text \<open>
  C9: \<open>submit_animals_batch\<close> given more than 100 records raises \<open>ValueError\<close> and leaves
  the requests sent and the log as they were; given at most 100 it sends the POST of
  these records (once, or again on each retry), and its result is that of the request.
\<close>

theorem submit_animals_batch_spec:
  "(length animals > 100 \<longrightarrow> submit_animals_batch cfg env animals w = (Inl ValueError, w))
   \<and> (length animals \<le> 100 \<longrightarrow>
        (\<exists>n\<ge>1. sent (snd (submit_animals_batch cfg env animals w))
                  = sent w @ replicate n (PostHome animals))
        \<and> fst (submit_animals_batch cfg env animals w) =
            map_sum id (\<lambda>resp. True)
              (fst (make_request cfg env (PostHome animals)
                      (logger (SubmittingBatch (int (length animals))) w))))"
proof -
  have big: "length animals > 100 \<longrightarrow> submit_animals_batch cfg env animals w = (Inl ValueError, w)"
    by (simp add: submit_animals_batch_def)
  have small: "length animals \<le> 100 \<longrightarrow>
        (\<exists>n\<ge>1. sent (snd (submit_animals_batch cfg env animals w))
                  = sent w @ replicate n (PostHome animals))"
  proof
    assume le: "length animals \<le> 100"
    from make_request_sent [of cfg env "PostHome animals"
        "logger (SubmittingBatch (int (length animals))) w"]
    show "\<exists>n\<ge>1. sent (snd (submit_animals_batch cfg env animals w))
                  = sent w @ replicate n (PostHome animals)"
      unfolding submit_sent [OF le] by (simp add: logger_def)
  qed
  from big small submit_fst [of animals cfg env w] show ?thesis by blast
qed

theorem submit_animals_batch_spec_witness:
  "length (replicate 101 example_animal) > 100
   \<and> submit_animals_batch default_config example_env (replicate 101 example_animal) world0
       = (Inl ValueError, world0)
   \<and> length [example_animal] \<le> 100
   \<and> fst (submit_animals_batch default_config example_env [example_animal] world0) = Inr True
   \<and> sent (snd (submit_animals_batch default_config example_env [example_animal] world0))
       = [PostHome [example_animal]]"
proof -
  have l1: "length (replicate 101 example_animal) > 100" by simp
  have l2: "length [example_animal] \<le> 100" by simp
  note big = submit_animals_batch_spec
    [of "replicate 101 example_animal" default_config example_env world0]
  note small = submit_animals_batch_spec
    [of "[example_animal]" default_config example_env world0]
  from big l1 have a: "submit_animals_batch default_config example_env
      (replicate 101 example_animal) world0 = (Inl ValueError, world0)" by blast
  from small l2 have "fst (submit_animals_batch default_config example_env [example_animal] world0)
     = map_sum id (\<lambda>resp. True)
              (fst (make_request default_config example_env (PostHome [example_animal])
                      (logger (SubmittingBatch (int (length [example_animal]))) world0)))"
    by blast
  then have b: "fst (submit_animals_batch default_config example_env [example_animal] world0)
     = Inr True" by (simp add: example_post_ok)
  have c: "sent (snd (submit_animals_batch default_config example_env [example_animal] world0))
       = [PostHome [example_animal]]"
    by (simp add: submit_animals_batch_def example_post_ok logger_def world0_def)
  from l1 a l2 b c show ?thesis by blast
qed

text \<open>
  C8: for a listing of \<open>N\<close> pages whose page \<open>k\<close> is answered with status 200, page number
  \<open>k\<close>, \<open>total_pages = N\<close> and the items \<open>pages k\<close>, \<open>get_all_animals\<close> starting at page 1
  returns, sends exactly the \<open>N\<close> page requests 1..N in order, and returns the items of all
  pages in page order, so that their number is the sum of the pages' item counts.
\<close>

theorem get_all_animals_pages:
  assumes "1 \<le> N" and "START_PAGE cfg = 1"
    and "\<forall>k\<in>{1..N}. \<forall>h. env h (GetList k (DEFAULT_PAGE_SIZE cfg)) =
            Response \<lparr>status_code = 200, body = ListBody k N (pages k)\<rparr>"
  shows "get_all_animals cfg env w =
           Some (Inr (concat (map pages [1..N])),
                 w\<lparr>sent := sent w @ map (\<lambda>k. GetList k (DEFAULT_PAGE_SIZE cfg)) [1..N]\<rparr>)
         \<and> int (length (map (\<lambda>k. GetList k (DEFAULT_PAGE_SIZE cfg)) [1..N])) = N
         \<and> length (concat (map pages [1..N])) = sum_list (map (\<lambda>k. length (pages k)) [1..N])"
proof -
  have a: "get_all_animals cfg env w =
           Some (Inr (concat (map pages [1..N])),
                 w\<lparr>sent := sent w @ map (\<lambda>k. GetList k (DEFAULT_PAGE_SIZE cfg)) [1..N]\<rparr>)"
    unfolding get_all_animals_def assms(2)
    using get_all_animals_loop_pages [OF assms(3), of 1 "[]" w] assms(1) by simp
  have b: "int (length (map (\<lambda>k. GetList k (DEFAULT_PAGE_SIZE cfg)) [1..N])) = N"
    using assms(1) by simp
  have c: "length (concat (map pages [1..N])) = sum_list (map (\<lambda>k. length (pages k)) [1..N])"
    by (simp add: length_concat comp_def)
  from a b c show ?thesis by blast
qed

theorem get_all_animals_pages_witness:
  "(1::int) \<le> 2 \<and> START_PAGE default_config = 1
   \<and> example_env [] (GetList 1 (DEFAULT_PAGE_SIZE default_config)) =
       Response \<lparr>status_code = 200, body = ListBody 1 2 (example_pages 1)\<rparr>
   \<and> example_env [GetList 1 20] (GetList 2 (DEFAULT_PAGE_SIZE default_config)) =
       Response \<lparr>status_code = 200, body = ListBody 2 2 (example_pages 2)\<rparr>
   \<and> get_all_animals default_config example_env world0 =
       Some (Inr [\<lparr>id_s = 1, name_s = ''ant''\<rparr>, \<lparr>id_s = 2, name_s = ''bee''\<rparr>,
                  \<lparr>id_s = 3, name_s = ''cat''\<rparr>, \<lparr>id_s = 4, name_s = ''dog''\<rparr>,
                  \<lparr>id_s = 5, name_s = ''eel''\<rparr>],
             \<lparr>sent = [GetList 1 20, GetList 2 20], log = []\<rparr>)"
proof -
  have h1: "(1::int) \<le> 2" by simp
  have h2: "START_PAGE default_config = 1" by (simp add: default_config_def)
  have h3: "\<forall>k\<in>{1..2}. \<forall>h. example_env h (GetList k (DEFAULT_PAGE_SIZE default_config)) =
            Response \<lparr>status_code = 200, body = ListBody k 2 (example_pages k)\<rparr>"
    by (simp add: example_env_def)
  from get_all_animals_pages [OF h1 h2 h3, of world0]
  have "get_all_animals default_config example_env world0 =
       Some (Inr [\<lparr>id_s = 1, name_s = ''ant''\<rparr>, \<lparr>id_s = 2, name_s = ''bee''\<rparr>,
                  \<lparr>id_s = 3, name_s = ''cat''\<rparr>, \<lparr>id_s = 4, name_s = ''dog''\<rparr>,
                  \<lparr>id_s = 5, name_s = ''eel''\<rparr>],
             \<lparr>sent = [GetList 1 20, GetList 2 20], log = []\<rparr>)"
    by (simp add: upto_1_2 example_pages_def world0_def default_config_def)
  moreover have "example_env [] (GetList 1 (DEFAULT_PAGE_SIZE default_config)) =
       Response \<lparr>status_code = 200, body = ListBody 1 2 (example_pages 1)\<rparr>"
    using h3 by simp
  moreover have "example_env [GetList 1 20] (GetList 2 (DEFAULT_PAGE_SIZE default_config)) =
       Response \<lparr>status_code = 200, body = ListBody 2 2 (example_pages 2)\<rparr>"
    using h3 by simp
  ultimately show ?thesis using h1 h2 by blast
qed

text \<open>
  C3, as stated: every batch has the configured batch size capped at 100 records. With a
  batch size of 150 and 150 records the loader forms one batch of all 150 records;
  \<open>submit_animals_batch\<close> refuses it before any request is sent, and the batch is
  counted as failed.
\<close>

theorem load_animals_oversize_batch_counterexample:
  "batch_size (AnimalETLProcessor_init 150) = 150
   \<and> length (replicate 150 example_animal) = 150
   \<and> batches (replicate 150 example_animal) 150 = [replicate 150 example_animal]
   \<and> load_animals default_config example_env (AnimalETLProcessor_init 150)
        (replicate 150 example_animal) world0 =
       (Inr False,
        \<lparr>batch_size = 150,
         stats = \<lparr>total_animals_found = 0, total_animals_detailed = 0,
                  total_animals_transformed = 0, total_animals_submitted = 0,
                  total_batches_submitted = 0, failed_details = 0,
                  failed_transformations = 0, failed_submissions = 1\<rparr>\<rparr>,
        \<lparr>sent = [], log = [ProcessingBatch 1 150, BatchError 1]\<rparr>)"
proof -
  have r: "py_range 150 150 = Inr [0]" by (simp add: py_range_def)
  have sl: "slice (replicate 150 example_animal) 0 150 = replicate 150 example_animal"
    by (simp add: slice_def)
  have sub: "submit_animals_batch default_config example_env (replicate 150 example_animal) w
      = (Inl ValueError, w)" for w
    by (simp add: submit_animals_batch_def)
  have a: "batch_size (AnimalETLProcessor_init 150) = 150"
    by (simp add: AnimalETLProcessor_init_def)
  have b: "batches (replicate 150 example_animal) 150 = [replicate 150 example_animal]"
    by (simp add: batches_def r sl)
  have c: "load_animals default_config example_env (AnimalETLProcessor_init 150)
        (replicate 150 example_animal) world0 =
       (Inr False,
        \<lparr>batch_size = 150,
         stats = \<lparr>total_animals_found = 0, total_animals_detailed = 0,
                  total_animals_transformed = 0, total_animals_submitted = 0,
                  total_batches_submitted = 0, failed_details = 0,
                  failed_transformations = 0, failed_submissions = 1\<rparr>\<rparr>,
        \<lparr>sent = [], log = [ProcessingBatch 1 150, BatchError 1]\<rparr>)"
    by (simp add: load_animals_def AnimalETLProcessor_init_def ETLStats_init_def r sl sub
        logger_def world0_def)
  from a b c show ?thesis by simp
qed

text \<open>
  C3, amended: for a positive batch size the loader cuts the records into consecutive
  batches of exactly the configured size, the last one possibly shorter and none empty,
  whose concatenation is the input; the size is not capped. It submits the batches one
  after the other in this order, and always returns: its result, its three counters and
  the world it leaves are those of \<open>submit_each\<close>, so that a batch whose submission fails
  is logged and counted as failed and the batches after it are still submitted. A batch
  of more than 100 records always fails with \<open>ValueError\<close> and no request is sent for it;
  every other batch is sent at least once, and every failure is a \<open>ValueError\<close> or an
  \<open>APIError\<close>. The requests sent are those of the batches, in the order of the batches.
\<close>

theorem load_animals_batches:
  assumes pos: "0 < batch_size p"
  shows "concat (batches tr (batch_size p)) = tr
   \<and> (\<forall>k<length (batches tr (batch_size p)).
         batches tr (batch_size p) ! k
           = take (nat (batch_size p)) (drop (k * nat (batch_size p)) tr)
         \<and> batches tr (batch_size p) ! k \<noteq> []
         \<and> length (batches tr (batch_size p) ! k) \<le> nat (batch_size p)
         \<and> (k + 1 < length (batches tr (batch_size p)) \<longrightarrow>
              length (batches tr (batch_size p) ! k) = nat (batch_size p)))
   \<and> load_animals cfg env p tr w =
       (Inr (list_all succeeded (fst (submit_each cfg env (batches tr (batch_size p)) 1 w))),
        p\<lparr>stats := (stats p)\<lparr>
             total_animals_submitted :=
               submitted_records (batches tr (batch_size p))
                 (fst (submit_each cfg env (batches tr (batch_size p)) 1 w)),
             total_batches_submitted :=
               int (length (filter succeeded
                      (fst (submit_each cfg env (batches tr (batch_size p)) 1 w)))),
             failed_submissions :=
               int (length (filter (\<lambda>r. \<not> succeeded r)
                      (fst (submit_each cfg env (batches tr (batch_size p)) 1 w))))\<rparr>\<rparr>,
        snd (submit_each cfg env (batches tr (batch_size p)) 1 w))
   \<and> list_all2 (\<lambda>b r. (100 < length b \<longrightarrow> r = Inl ValueError)
                  \<and> (succeeded r \<longrightarrow> length b \<le> 100)
                  \<and> (r = Inr True \<or> r = Inl ValueError \<or> (\<exists>s. r = Inl (APIError s))))
        (batches tr (batch_size p))
        (fst (submit_each cfg env (batches tr (batch_size p)) 1 w))
   \<and> (\<exists>ns. list_all2 (\<lambda>b n. if 100 < length b then n = 0 else 1 \<le> n)
               (batches tr (batch_size p)) ns
          \<and> sent (snd (snd (load_animals cfg env p tr w))) =
              sent w @ concat (map2 (\<lambda>b n. replicate n (PostHome b))
                                 (batches tr (batch_size p)) ns))
   \<and> batch_errors (log (snd (snd (load_animals cfg env p tr w)))) =
       batch_errors (log w) + failed_submissions (stats (fst (snd (load_animals cfg env p tr w))))"
proof -
  let ?bs = "batch_size p"
  let ?E = "submit_each cfg env (batches tr ?bs) 1 w"
  from pos have nz: "?bs \<noteq> 0" by simp
  have A: "concat (batches tr ?bs) = tr" using pos by (rule concat_batches)
  have B: "\<forall>k<length (batches tr ?bs).
         batches tr ?bs ! k = take (nat ?bs) (drop (k * nat ?bs) tr)
         \<and> batches tr ?bs ! k \<noteq> []
         \<and> length (batches tr ?bs ! k) \<le> nat ?bs
         \<and> (k + 1 < length (batches tr ?bs) \<longrightarrow> length (batches tr ?bs ! k) = nat ?bs)"
    using batches_nth [OF pos] by blast
  note C = load_animals_spec [OF nz, of cfg env tr w]
  have e: "?E = (fst ?E, snd ?E)" by simp
  note O = submit_each_outcomes [OF e]
  from O have D: "list_all2 (\<lambda>b r. (100 < length b \<longrightarrow> r = Inl ValueError)
                  \<and> (succeeded r \<longrightarrow> length b \<le> 100)
                  \<and> (r = Inr True \<or> r = Inl ValueError \<or> (\<exists>s. r = Inl (APIError s))))
        (batches tr ?bs) (fst ?E)" by blast
  from O obtain ns where
    n1: "list_all2 (\<lambda>b n. if 100 < length b then n = 0 else 1 \<le> n) (batches tr ?bs) ns"
    and n2: "sent (snd ?E) = sent w @ concat (map2 (\<lambda>b n. replicate n (PostHome b))
                                 (batches tr ?bs) ns)" by blast
  have s: "snd (snd (load_animals cfg env p tr w)) = snd ?E" unfolding C by simp
  have F: "\<exists>ns. list_all2 (\<lambda>b n. if 100 < length b then n = 0 else 1 \<le> n) (batches tr ?bs) ns
          \<and> sent (snd (snd (load_animals cfg env p tr w))) =
              sent w @ concat (map2 (\<lambda>b n. replicate n (PostHome b)) (batches tr ?bs) ns)"
    unfolding s using n1 n2 by blast
  have f: "failed_submissions (stats (fst (snd (load_animals cfg env p tr w)))) =
      int (length (filter (\<lambda>r. \<not> succeeded r) (fst ?E)))" unfolding C by simp
  have G: "batch_errors (log (snd (snd (load_animals cfg env p tr w)))) =
       batch_errors (log w) + failed_submissions (stats (fst (snd (load_animals cfg env p tr w))))"
    unfolding s f by (rule load_animals_batch_errors [OF nz])
  from A B C D F G show ?thesis by blast
qed

theorem load_animals_batches_witness:
  "0 < batch_size (AnimalETLProcessor_init 2)
   \<and> batches [example_animal, example_animal, example_animal] 2
       = [[example_animal, example_animal], [example_animal]]
   \<and> concat (batches [example_animal, example_animal, example_animal]
                (batch_size (AnimalETLProcessor_init 2)))
       = [example_animal, example_animal, example_animal]
   \<and> fst (submit_each default_config reject_pairs_env
             [[example_animal, example_animal], [example_animal]] 1 world0)
       = [Inl (APIError (Some 400)), Inr True]
   \<and> load_animals default_config reject_pairs_env (AnimalETLProcessor_init 2)
        [example_animal, example_animal, example_animal] world0 =
       (Inr False,
        \<lparr>batch_size = 2,
         stats = \<lparr>total_animals_found = 0, total_animals_detailed = 0,
                  total_animals_transformed = 0, total_animals_submitted = 1,
                  total_batches_submitted = 1, failed_details = 0,
                  failed_transformations = 0, failed_submissions = 1\<rparr>\<rparr>,
        \<lparr>sent = [PostHome [example_animal, example_animal],
                 PostHome [example_animal, example_animal],
                 PostHome [example_animal, example_animal],
                 PostHome [example_animal]],
         log = [ProcessingBatch 1 2, SubmittingBatch 2, NonRetryable 400, NonRetryable 400,
                NonRetryable 400, SubmitFailed 2, BatchError 1,
                ProcessingBatch 2 1, SubmittingBatch 1, SubmittedBatch 1, BatchOk 2]\<rparr>)"
proof -
  let ?tr = "[example_animal, example_animal, example_animal]"
  let ?W = "\<lparr>sent = [PostHome [example_animal, example_animal],
                 PostHome [example_animal, example_animal],
                 PostHome [example_animal, example_animal],
                 PostHome [example_animal]],
         log = [ProcessingBatch 1 2, SubmittingBatch 2, NonRetryable 400, NonRetryable 400,
                NonRetryable 400, SubmitFailed 2, BatchError 1,
                ProcessingBatch 2 1, SubmittingBatch 1, SubmittedBatch 1, BatchOk 2]\<rparr>"
  have h: "0 < batch_size (AnimalETLProcessor_init 2)"
    by (simp add: AnimalETLProcessor_init_def)
  have bs: "batch_size (AnimalETLProcessor_init 2) = 2"
    by (simp add: AnimalETLProcessor_init_def)
  have r: "py_range 3 2 = Inr [0, 2]"
    by (simp add: py_range_def upt_rec)
  have b: "batches ?tr 2 = [[example_animal, example_animal], [example_animal]]"
    by (simp add: batches_def r slice_def)
  have se: "submit_each default_config reject_pairs_env
             [[example_animal, example_animal], [example_animal]] 1 world0
       = ([Inl (APIError (Some 400)), Inr True], ?W)"
    by (simp add: submit_animals_batch_def reject_pairs_request reject_pairs_single logger_def
        world0_def succeeded_def)
  note spec = load_animals_batches [OF h, where tr = "?tr" and cfg = default_config
      and env = reject_pairs_env and w = world0]
  from spec have c: "concat (batches ?tr (batch_size (AnimalETLProcessor_init 2))) = ?tr"
    by blast
  from spec have "load_animals default_config reject_pairs_env (AnimalETLProcessor_init 2)
        ?tr world0 =
       (Inr (list_all succeeded (fst (submit_each default_config reject_pairs_env
           (batches ?tr (batch_size (AnimalETLProcessor_init 2))) 1 world0))),
        (AnimalETLProcessor_init 2)\<lparr>stats := (stats (AnimalETLProcessor_init 2))\<lparr>
             total_animals_submitted :=
               submitted_records (batches ?tr (batch_size (AnimalETLProcessor_init 2)))
                 (fst (submit_each default_config reject_pairs_env
                    (batches ?tr (batch_size (AnimalETLProcessor_init 2))) 1 world0)),
             total_batches_submitted :=
               int (length (filter succeeded
                      (fst (submit_each default_config reject_pairs_env
                         (batches ?tr (batch_size (AnimalETLProcessor_init 2))) 1 world0)))),
             failed_submissions :=
               int (length (filter (\<lambda>r. \<not> succeeded r)
                      (fst (submit_each default_config reject_pairs_env
                         (batches ?tr (batch_size (AnimalETLProcessor_init 2))) 1 world0))))\<rparr>\<rparr>,
        snd (submit_each default_config reject_pairs_env
               (batches ?tr (batch_size (AnimalETLProcessor_init 2))) 1 world0))"
    by blast
  then have d: "load_animals default_config reject_pairs_env (AnimalETLProcessor_init 2)
        ?tr world0 =
       (Inr False,
        \<lparr>batch_size = 2,
         stats = \<lparr>total_animals_found = 0, total_animals_detailed = 0,
                  total_animals_transformed = 0, total_animals_submitted = 1,
                  total_batches_submitted = 1, failed_details = 0,
                  failed_transformations = 0, failed_submissions = 1\<rparr>\<rparr>, ?W)"
    unfolding bs b se
    by (simp add: succeeded_def submitted_records_def AnimalETLProcessor_init_def
        ETLStats_init_def)
  have e: "fst (submit_each default_config reject_pairs_env
             [[example_animal, example_animal], [example_animal]] 1 world0)
       = [Inl (APIError (Some 400)), Inr True]" unfolding se by simp
  from h b c e d show ?thesis by blast
qed




text \<open>
  C10: after \<open>run\<close> the details fetched and the details that failed are claimed to add up
  to the animals found whenever the detailing phase ran. A detail body that \<open>get_animal_detail\<close>
  cannot parse is meant to become an \<open>APIError\<close>, which the detailing phase counts: with
  a body that is not valid for the model, five animals are found, none is detailed and five
  are counted as failed. With a body that is a JSON value other than an object the
  \<open>TypeError\<close> is not converted: the first detail request ends the phase, and five animals
  are found, none detailed and none counted as failed.
\<close>

theorem run_detail_type_error_breaks_stats:
  "run default_config parse_iso_day unexpected_detail_env (AnimalETLProcessor_init 100) world0 =
     Some (False,
           \<lparr>batch_size = 100,
            stats = \<lparr>total_animals_found = 5, total_animals_detailed = 0,
                     total_animals_transformed = 0, total_animals_submitted = 0,
                     total_batches_submitted = 0, failed_details = 0,
                     failed_transformations = 0, failed_submissions = 0\<rparr>\<rparr>,
           \<lparr>sent = [GetList 1 20, GetList 2 20, GetDetail 1], log = []\<rparr>)
   \<and> run default_config parse_iso_day invalid_detail_env (AnimalETLProcessor_init 100) world0 =
     Some (False,
           \<lparr>batch_size = 100,
            stats = \<lparr>total_animals_found = 5, total_animals_detailed = 0,
                     total_animals_transformed = 0, total_animals_submitted = 0,
                     total_batches_submitted = 0, failed_details = 5,
                     failed_transformations = 0, failed_submissions = 0\<rparr>\<rparr>,
           \<lparr>sent = [GetList 1 20, GetList 2 20, GetDetail 1, GetDetail 2, GetDetail 3,
                    GetDetail 4, GetDetail 5],
            log = []\<rparr>)"
proof -
  have a: "run default_config parse_iso_day unexpected_detail_env
             (AnimalETLProcessor_init 100) world0 =
     Some (False,
           \<lparr>batch_size = 100,
            stats = \<lparr>total_animals_found = 5, total_animals_detailed = 0,
                     total_animals_transformed = 0, total_animals_submitted = 0,
                     total_batches_submitted = 0, failed_details = 0,
                     failed_transformations = 0, failed_submissions = 0\<rparr>\<rparr>,
           \<lparr>sent = [GetList 1 20, GetList 2 20, GetDetail 1], log = []\<rparr>)"
    by (simp add: run_def extract_animals_def unexpected_get_all extract_animal_details_def
      unexpected_details_loop example_summaries_facts AnimalETLProcessor_init_def
      ETLStats_init_def world0_def)
  have b: "run default_config parse_iso_day invalid_detail_env
             (AnimalETLProcessor_init 100) world0 =
     Some (False,
           \<lparr>batch_size = 100,
            stats = \<lparr>total_animals_found = 5, total_animals_detailed = 0,
                     total_animals_transformed = 0, total_animals_submitted = 0,
                     total_batches_submitted = 0, failed_details = 5,
                     failed_transformations = 0, failed_submissions = 0\<rparr>\<rparr>,
           \<lparr>sent = [GetList 1 20, GetList 2 20, GetDetail 1, GetDetail 2, GetDetail 3,
                    GetDetail 4, GetDetail 5],
            log = []\<rparr>)"
    by (simp add: run_def extract_animals_def invalid_get_all extract_animal_details_def
      invalid_details_loop example_summaries_facts AnimalETLProcessor_init_def
      ETLStats_init_def world0_def)
  from a b show ?thesis by simp
qed

end
